theory Spec2Isabelle
  imports Main "HOL-Library.Word"
begin

section \<open>Query compiler IR (src/carnot/compiler/ir/ir_nodes.h)\<close>

subsection \<open>Machine integers and status values\<close>

text \<open>
  \<^verbatim>\<open>int64_t\<close> is a 64-bit word read as two's complement: comparisons are the signed
  ones (\<open>word_sless\<close>, \<open>word_sle\<close>) and \<open>+\<close> wraps around. Signed overflow is
  undefined behaviour in C++; the wrap-around is what the arithmetic does on the
  two's-complement targets the repository builds for.
\<close>

type_synonym int64 = "64 word"

definition INT64_MAX :: int64 where
  "INT64_MAX = 9223372036854775807"

text \<open>\<^verbatim>\<open>std::max(a, b)\<close> on \<^verbatim>\<open>int64_t\<close>: \<^verbatim>\<open>(a < b) ? b : a\<close>.\<close>

definition std_max :: "int64 \<Rightarrow> int64 \<Rightarrow> int64" where
  "std_max a b = (if a <s b then b else a)"

text \<open>
  \<^verbatim>\<open>Status\<close> carries a code and a message. The codes are the ones the header produces
  (\<^verbatim>\<open>statuspb::INVALID_ARGUMENT\<close>, \<^verbatim>\<open>error::Unimplemented\<close>) and the
  internal-invariant class of the specification's error taxonomy. An OK status is the
  right injection of a sum.
\<close>

datatype StatusCode = INVALID_ARGUMENT | UNIMPLEMENTED | INTERNAL_INVARIANT

record Status =
  code :: StatusCode
  msg :: string

text \<open>
  A call fails in one of three ways: it returns an error status; a \<^verbatim>\<open>CHECK\<close> that does
  not hold aborts the process; or it does something that C++ leaves undefined (reading an
  array outside its bounds).
\<close>

datatype failure = StatusError Status | CheckFailure string | Undefined string

type_synonym 'a StatusOr = "failure + 'a"

subsection \<open>Node types\<close>

datatype IRNodeType =
    kAny
  | kMemorySource
  | kMemorySink
  | kMap
  | kDrop
  | kBlockingAgg
  | kFilter
  | kLimit
  | kString
  | kUInt128
  | kFloat
  | kInt
  | kBool
  | kFunc
  | kList
  | kTuple
  | kColumn
  | kTime
  | kMetadata
  | kMetadataResolver
  | kMetadataLiteral
  | kGRPCSourceGroup
  | kGRPCSource
  | kGRPCSink
  | kUnion
  | kJoin
  | kTabletSourceGroup
  | kGroupBy
  | kUDTFSource
  | number_of_types

text \<open>
  \<^verbatim>\<open>kIRNodeStrings[static_cast<int64_t>(node_type)]\<close>. The table has one entry for
  each of the 28 node types; \<^verbatim>\<open>kAny\<close> is index -1 and \<^verbatim>\<open>number_of_types\<close>
  index 28, both outside the array, so they have no string.
\<close>

fun TypeString :: "IRNodeType \<Rightarrow> string option" where
  "TypeString kAny = None"
| "TypeString kMemorySource = Some ''MemorySource''"
| "TypeString kMemorySink = Some ''MemorySink''"
| "TypeString kMap = Some ''Map''"
| "TypeString kDrop = Some ''Drop''"
| "TypeString kBlockingAgg = Some ''BlockingAgg''"
| "TypeString kFilter = Some ''Filter''"
| "TypeString kLimit = Some ''Limit''"
| "TypeString kString = Some ''String''"
| "TypeString kUInt128 = Some ''UInt128Value''"
| "TypeString kFloat = Some ''Float''"
| "TypeString kInt = Some ''Int''"
| "TypeString kBool = Some ''Bool''"
| "TypeString kFunc = Some ''Func''"
| "TypeString kList = Some ''List''"
| "TypeString kTuple = Some ''Tuple''"
| "TypeString kColumn = Some ''Column''"
| "TypeString kTime = Some ''Time''"
| "TypeString kMetadata = Some ''Metadata''"
| "TypeString kMetadataResolver = Some ''MetadataResolver''"
| "TypeString kMetadataLiteral = Some ''MetadataLiteral''"
| "TypeString kGRPCSourceGroup = Some ''GRPCSourceGroup''"
| "TypeString kGRPCSource = Some ''GRPCSource''"
| "TypeString kGRPCSink = Some ''GRPCSink''"
| "TypeString kUnion = Some ''Union''"
| "TypeString kJoin = Some ''Join''"
| "TypeString kTabletSourceGroup = Some ''TabletSourceGroup''"
| "TypeString kGroupBy = Some ''GroupBy''"
| "TypeString kUDTFSource = Some ''UDTFSource''"
| "TypeString number_of_types = None"

subsection \<open>Nodes\<close>

text \<open>
  An \<^verbatim>\<open>IR*\<close> is the address of a graph object. A parsed syntax node
  (\<^verbatim>\<open>pypa::AstPtr\<close>) is null or carries a source position.
\<close>

type_synonym IR_ptr = nat

record Ast =
  ast_line :: int64
  ast_column :: int64

text \<open>
  The members of \<^verbatim>\<open>IRNode\<close>, named without the trailing underscore of the source
  (\<open>node_type\<close> is \<^verbatim>\<open>type_\<close>, \<open>node_id\<close> is \<^verbatim>\<open>id_\<close>). The constructor
  \<^verbatim>\<open>IRNode(id, type)\<close> sets \<open>node_type\<close> and \<open>node_id\<close>; \<open>line_col_set\<close> starts
  false and \<open>ast_node\<close> null. \<open>line\<close>, \<open>col\<close> and \<open>graph_ptr\<close> have no
  initialiser: they keep whatever the memory held, which is the argument \<open>uninit\<close>
  of the constructor's model.
\<close>

record IRNode =
  node_type :: IRNodeType
  node_id :: int64
  line :: int64
  col :: int64
  graph_ptr :: IR_ptr
  line_col_set :: bool
  ast_node :: "Ast option"

definition IRNode_ctor :: "IRNode \<Rightarrow> int64 \<Rightarrow> IRNodeType \<Rightarrow> IRNode" where
  "IRNode_ctor uninit i t =
     uninit\<lparr>node_type := t, node_id := i, line_col_set := False, ast_node := None\<rparr>"

definition SetGraphPtr :: "IR_ptr \<Rightarrow> IRNode \<Rightarrow> IRNode" where
  "SetGraphPtr gp n = n\<lparr>graph_ptr := gp\<rparr>"

text \<open>
  Modelled from the spec: \<^verbatim>\<open>IRNode::SetLineCol(const pypa::AstPtr&)\<close> is declared in the
  header and defined out of line. Node creation "stamps its source position when derived
  from parsed input".
\<close>

definition SetLineCol :: "Ast \<Rightarrow> IRNode \<Rightarrow> IRNode" where
  "SetLineCol a n =
     n\<lparr>line := ast_line a, col := ast_column a, line_col_set := True,
       ast_node := Some a\<rparr>"

subsection \<open>The graph\<close>

text \<open>
  Modelled from the spec: \<^verbatim>\<open>plan::DAG\<close> (src/carnot/plan/dag.h) is included by the
  header and is not among the sources. The graph "maintains a directed edge set (a DAG)"
  over registered node ids. The edges are kept as a list, so that the model can tell one
  edge between a pair from two.
\<close>

record DAG =
  dag_nodes :: "int64 set"
  dag_edges :: "(int64 \<times> int64) list"

definition DAG_empty :: DAG where
  "DAG_empty = \<lparr>dag_nodes = {}, dag_edges = []\<rparr>"

definition DAG_AddNode :: "int64 \<Rightarrow> DAG \<Rightarrow> DAG" where
  "DAG_AddNode n d = d\<lparr>dag_nodes := insert n (dag_nodes d)\<rparr>"

definition DAG_HasNode :: "DAG \<Rightarrow> int64 \<Rightarrow> bool" where
  "DAG_HasNode d n = (n \<in> dag_nodes d)"

definition DAG_HasEdge :: "DAG \<Rightarrow> int64 \<Rightarrow> int64 \<Rightarrow> bool" where
  "DAG_HasEdge d from to = ((from, to) \<in> set (dag_edges d))"

definition DAG_AddEdge :: "int64 \<Rightarrow> int64 \<Rightarrow> DAG \<Rightarrow> DAG" where
  "DAG_AddEdge from to d = d\<lparr>dag_edges := dag_edges d @ [(from, to)]\<rparr>"

text \<open>
  The members of \<^verbatim>\<open>IR\<close>: \<open>dag\<close>, \<open>id_node_map\<close> (an
  \<^verbatim>\<open>unordered_map<int64_t, IRNodePtr>\<close>) and \<open>id_node_counter\<close>, which starts at 0.
\<close>

record IR =
  dag :: DAG
  id_node_map :: "int64 \<rightharpoonup> IRNode"
  id_node_counter :: int64

definition IR_empty :: IR where
  "IR_empty = \<lparr>dag = DAG_empty, id_node_map = Map.empty, id_node_counter = 0\<rparr>"

text \<open>
  \<^verbatim>\<open>IR::MakeNode<TOperator>(int64_t id, const pypa::AstPtr& ast)\<close>. The template
  argument is the type tag \<open>t\<close> that \<^verbatim>\<open>TOperator\<close>'s constructor passes to
  \<^verbatim>\<open>IRNode\<close>; \<open>this\<close> is the address of the graph. \<^verbatim>\<open>emplace\<close> inserts only
  when the key is absent; when the id is already registered the map stays as it is, the
  new object is destroyed at the end of the call and the returned pointer dangles. A
  node pointer into this graph is modelled by the node's id.
\<close>

definition MakeNode ::
  "IR_ptr \<Rightarrow> IRNode \<Rightarrow> IRNodeType \<Rightarrow> int64 \<Rightarrow> Ast option \<Rightarrow> IR \<Rightarrow> int64 StatusOr \<times> IR" where
  "MakeNode this uninit t i ast g =
     (let counter = std_max (i + 1) (id_node_counter g);
          node = IRNode_ctor uninit i t;
          dag = DAG_AddNode (node_id node) (dag g);
          node = SetGraphPtr this node;
          node = (case ast of None \<Rightarrow> node | Some a \<Rightarrow> SetLineCol a node);
          m = id_node_map g;
          m = (if node_id node \<in> dom m then m else m(node_id node \<mapsto> node))
      in (Inr (node_id node), \<lparr>dag = dag, id_node_map = m, id_node_counter = counter\<rparr>))"

text \<open>\<^verbatim>\<open>MakeNode<TOperator>(const pypa::AstPtr& ast)\<close>: the next available id.\<close>

definition MakeNode_ast ::
  "IR_ptr \<Rightarrow> IRNode \<Rightarrow> IRNodeType \<Rightarrow> Ast option \<Rightarrow> IR \<Rightarrow> int64 StatusOr \<times> IR" where
  "MakeNode_ast this uninit t ast g = MakeNode this uninit t (id_node_counter g) ast g"

text \<open>\<^verbatim>\<open>MakeNode<TOperator>(int64_t id)\<close>: a supplied id and no syntax node.\<close>

definition MakeNode_id ::
  "IR_ptr \<Rightarrow> IRNode \<Rightarrow> IRNodeType \<Rightarrow> int64 \<Rightarrow> IR \<Rightarrow> int64 StatusOr \<times> IR" where
  "MakeNode_id this uninit t i g = MakeNode this uninit t i None g"

text \<open>\<^verbatim>\<open>IR::HasNode\<close>: \<^verbatim>\<open>dag().HasNode(node_id)\<close>.\<close>

definition HasNode :: "IR \<Rightarrow> int64 \<Rightarrow> bool" where
  "HasNode g n = DAG_HasNode (dag g) n"

text \<open>
  Modelled from the spec: \<^verbatim>\<open>IR::HasEdge\<close>, on ids and on node pointers, is declared in
  the header and defined out of line: whether the edge set holds the pair.
\<close>

definition HasEdge :: "IR \<Rightarrow> int64 \<Rightarrow> int64 \<Rightarrow> bool" where
  "HasEdge g from to = DAG_HasEdge (dag g) from to"

definition HasEdge_nodes :: "IR \<Rightarrow> IRNode \<Rightarrow> IRNode \<Rightarrow> bool" where
  "HasEdge_nodes g from_node to_node = HasEdge g (node_id from_node) (node_id to_node)"

text \<open>
  Modelled from the spec: \<^verbatim>\<open>IR::AddEdge\<close> is declared in the header and defined out of
  line. "Every node id referenced by an edge must exist in the node map", and "adding an
  edge between a parent and a child that are already connected is disallowed as a direct
  duplicate"; both are internal-invariant violations in the error taxonomy. Otherwise the
  edge is added.
\<close>

definition AddEdge :: "int64 \<Rightarrow> int64 \<Rightarrow> IR \<Rightarrow> unit StatusOr \<times> IR" where
  "AddEdge from to g =
     (if \<not> HasNode g from \<or> \<not> HasNode g to then
        (Inl (StatusError \<lparr>code = INTERNAL_INVARIANT, msg = ''dangling id reference''\<rparr>), g)
      else if HasEdge g from to then
        (Inl (StatusError \<lparr>code = INTERNAL_INVARIANT, msg = ''duplicate edge''\<rparr>), g)
      else (Inr (), g\<lparr>dag := DAG_AddEdge from to (dag g)\<rparr>))"

definition AddEdge_nodes :: "IRNode \<Rightarrow> int64 \<Rightarrow> IR \<Rightarrow> unit StatusOr \<times> IR" where
  "AddEdge_nodes from_node to g = AddEdge (node_id from_node) to g"

text \<open>
  Modelled from the spec: \<^verbatim>\<open>IR::MakeNodeWithType(node_type, new_node_id)\<close> is declared in
  the header and defined out of line. It creates, through \<^verbatim>\<open>MakeNode<T>(id)\<close>, a node of
  the class that carries the tag; the tag is "one of a fixed enumeration" of 28 node
  types, and the two enumerators that are not node types give an error.
\<close>

definition MakeNodeWithType ::
  "IR_ptr \<Rightarrow> IRNode \<Rightarrow> IRNodeType \<Rightarrow> int64 \<Rightarrow> IR \<Rightarrow> int64 StatusOr \<times> IR" where
  "MakeNodeWithType this uninit t new_node_id g =
     (case TypeString t of
        None \<Rightarrow> (Inl (StatusError \<lparr>code = INTERNAL_INVARIANT, msg = ''not a node type''\<rparr>), g)
      | Some s \<Rightarrow> MakeNode_id this uninit t new_node_id g)"

text \<open>
  A \<^verbatim>\<open>const IRNode*\<close> that may point into another graph is the pair of the owning
  graph's address and the node's id; \<open>copied_nodes_map\<close> maps such source pointers to
  nodes of this graph.
\<close>

type_synonym node_ref = "IR_ptr \<times> int64"

definition node_ref_of :: "IRNode \<Rightarrow> node_ref" where
  "node_ref_of n = (graph_ptr n, node_id n)"

text \<open>
  \<^verbatim>\<open>IRNode::CopyFromNode\<close> is virtual, declared in the header and defined out of line for
  every node class. It is an argument of the model of \<^verbatim>\<open>CopyNode\<close>: called on the new node
  with the source and the map of copies made so far, it may change the graph and the map,
  and returns a status.
\<close>

type_synonym CopyFromNode_t =
  "IR_ptr \<Rightarrow> int64 \<Rightarrow> IRNode \<Rightarrow> (node_ref \<rightharpoonup> int64) \<Rightarrow> IR
     \<Rightarrow> unit StatusOr \<times> (node_ref \<rightharpoonup> int64) \<times> IR"

text \<open>
  \<^verbatim>\<open>IR::CopyNode(source, copied_nodes_map)\<close>. The id of the copy: the graph's counter when
  the source belongs to this graph, the source's id otherwise.
\<close>

definition CopyNode_new_node_id :: "IR_ptr \<Rightarrow> IRNode \<Rightarrow> IR \<Rightarrow> int64" where
  "CopyNode_new_node_id this source g =
     (if this = graph_ptr source then id_node_counter g else node_id source)"

definition CopyNode ::
  "CopyFromNode_t \<Rightarrow> IR_ptr \<Rightarrow> IRNode \<Rightarrow> IRNode \<Rightarrow> (node_ref \<rightharpoonup> int64) \<Rightarrow> IR
     \<Rightarrow> int64 StatusOr \<times> (node_ref \<rightharpoonup> int64) \<times> IR" where
  "CopyNode CopyFromNode this uninit source copied_nodes_map g =
     (case copied_nodes_map (node_ref_of source) of
        Some n \<Rightarrow> (Inr n, copied_nodes_map, g)
      | None \<Rightarrow>
          (let new_node_id = CopyNode_new_node_id this source g in
           case MakeNodeWithType this uninit (node_type source) new_node_id g of
             (Inl e, g1) \<Rightarrow> (Inl e, copied_nodes_map, g1)
           | (Inr new_node, g1) \<Rightarrow>
               (case CopyFromNode this new_node source copied_nodes_map g1 of
                  (Inl e, m2, g2) \<Rightarrow> (Inl e, m2, g2)
                | (Inr u, m2, g2) \<Rightarrow>
                    (let m3 = (if node_ref_of source \<in> dom m2 then m2
                               else m2(node_ref_of source \<mapsto> new_node))
                     in if map_option node_type (id_node_map g2 new_node)
                             = Some (node_type source)
                        then (Inr new_node, m3, g2)
                        else (Inl (CheckFailure ''new_node->type() == source->type()''), m3, g2)))))"

text \<open>\<^verbatim>\<open>IR::CopyNode(source)\<close>: a top-level copy starts from an empty map.\<close>

definition CopyNode_top ::
  "CopyFromNode_t \<Rightarrow> IR_ptr \<Rightarrow> IRNode \<Rightarrow> IRNode \<Rightarrow> IR \<Rightarrow> int64 StatusOr \<times> IR" where
  "CopyNode_top CopyFromNode this uninit source g =
     (case CopyNode CopyFromNode this uninit source Map.empty g of (r, m, g1) \<Rightarrow> (r, g1))"

text \<open>
  \<^verbatim>\<open>IR::OptionallyCloneWithEdge(parent, child)\<close>. \<open>parent\<close> and \<open>child\<close> are the
  nodes behind the two pointers.
\<close>

definition OptionallyCloneWithEdge ::
  "CopyFromNode_t \<Rightarrow> IR_ptr \<Rightarrow> IRNode \<Rightarrow> IRNode \<Rightarrow> IRNode \<Rightarrow> IR \<Rightarrow> int64 StatusOr \<times> IR" where
  "OptionallyCloneWithEdge CopyFromNode this uninit parent child g =
     (case (if HasEdge_nodes g parent child
            then CopyNode_top CopyFromNode this uninit child g
            else (Inr (node_id child), g)) of
        (Inl e, g1) \<Rightarrow> (Inl e, g1)
      | (Inr returned_child, g1) \<Rightarrow>
          (case AddEdge_nodes parent returned_child g1 of
             (Inl e, g2) \<Rightarrow> (Inl e, g2)
           | (Inr u, g2) \<Rightarrow> (Inr returned_child, g2)))"





text \<open>
  The graph states that the operations above reach from the empty graph, for a graph at
  address \<open>this\<close>. \<^verbatim>\<open>MakeNode<TOperator>\<close> is instantiated with node classes only, so
  its tag is one of the 28 node types.
\<close>

inductive reachable :: "CopyFromNode_t \<Rightarrow> IR_ptr \<Rightarrow> IR \<Rightarrow> bool"
  for CopyFromNode :: CopyFromNode_t and this :: IR_ptr where
  reachable_empty: "reachable CopyFromNode this IR_empty"
| reachable_MakeNode:
    "reachable CopyFromNode this g \<Longrightarrow> TypeString t \<noteq> None
     \<Longrightarrow> reachable CopyFromNode this (snd (MakeNode this uninit t i ast g))"
| reachable_AddEdge:
    "reachable CopyFromNode this g \<Longrightarrow> reachable CopyFromNode this (snd (AddEdge from to g))"
| reachable_CopyNode:
    "reachable CopyFromNode this g
     \<Longrightarrow> reachable CopyFromNode this (snd (CopyNode_top CopyFromNode this uninit source g))"
| reachable_OptionallyCloneWithEdge:
    "reachable CopyFromNode this g
     \<Longrightarrow> reachable CopyFromNode this
          (snd (OptionallyCloneWithEdge CopyFromNode this uninit parent child g))"

text \<open>
  A sequence of node creations: each is one of the three \<^verbatim>\<open>MakeNode\<close> overloads.
  \<open>create_all\<close> runs them in order and records, for each, the id the node received.
\<close>

datatype creation =
    Fresh IRNodeType "Ast option"
  | Supplied IRNodeType int64
  | SuppliedAst IRNodeType int64 "Ast option"

fun is_Fresh :: "creation \<Rightarrow> bool" where
  "is_Fresh (Fresh t a) = True"
| "is_Fresh (Supplied t i) = False"
| "is_Fresh (SuppliedAst t i a) = False"

fun create :: "IR_ptr \<Rightarrow> IRNode \<Rightarrow> creation \<Rightarrow> IR \<Rightarrow> int64 StatusOr \<times> IR" where
  "create this uninit (Fresh t a) g = MakeNode_ast this uninit t a g"
| "create this uninit (Supplied t i) g = MakeNode_id this uninit t i g"
| "create this uninit (SuppliedAst t i a) g = MakeNode this uninit t i a g"

fun create_all ::
  "IR_ptr \<Rightarrow> IRNode \<Rightarrow> creation list \<Rightarrow> IR \<Rightarrow> (creation \<times> int64 StatusOr) list \<times> IR" where
  "create_all this uninit [] g = ([], g)"
| "create_all this uninit (c # cs) g =
     (case create this uninit c g of
        (r, g1) \<Rightarrow> (case create_all this uninit cs g1 of
                      (rs, g2) \<Rightarrow> ((c, r) # rs, g2)))"

text \<open>A concrete piece of uninitialised memory, for evaluating the model.\<close>

definition blank :: IRNode where
  "blank = \<lparr>node_type = kAny, node_id = 0, line = 0, col = 0, graph_ptr = 0,
            line_col_set = False, ast_node = None\<rparr>"

subsection \<open>Operators and their plan encoding\<close>

text \<open>
  The classes derived from \<^verbatim>\<open>OperatorIR\<close> (\<^verbatim>\<open>IsOperator()\<close> is true): the sixteen
  operator variants. Every other node class derives from \<^verbatim>\<open>ExpressionIR\<close>.
\<close>

fun IsOperator :: "IRNodeType \<Rightarrow> bool" where
  "IsOperator kMemorySource = True"
| "IsOperator kMemorySink = True"
| "IsOperator kMetadataResolver = True"
| "IsOperator kMap = True"
| "IsOperator kDrop = True"
| "IsOperator kBlockingAgg = True"
| "IsOperator kGroupBy = True"
| "IsOperator kFilter = True"
| "IsOperator kLimit = True"
| "IsOperator kGRPCSink = True"
| "IsOperator kGRPCSource = True"
| "IsOperator kGRPCSourceGroup = True"
| "IsOperator kUnion = True"
| "IsOperator kJoin = True"
| "IsOperator kTabletSourceGroup = True"
| "IsOperator kUDTFSource = True"
| "IsOperator t = False"

text \<open>
  \<^verbatim>\<open>error::Unimplemented(format, args...)\<close>: a status with code \<^verbatim>\<open>UNIMPLEMENTED\<close> and the
  substituted message.
\<close>

definition Unimplemented :: "string \<Rightarrow> failure" where
  "Unimplemented m = StatusError \<lparr>code = UNIMPLEMENTED, msg = m\<rparr>"

text \<open>
  \<^verbatim>\<open>MetadataResolverIR::ToProto\<close>, \<^verbatim>\<open>GroupByIR::ToProto\<close> and
  \<^verbatim>\<open>TabletSourceGroupIR::ToProto\<close>, the three bodies the header holds. The argument
  \<^verbatim>\<open>planpb::Operator*\<close> is unnamed in all three: the message it points to, \<open>op_pb\<close>,
  comes back as it went in. \<^verbatim>\<open>DebugString()\<close> is virtual and defined out of line; its
  result for the node is the argument \<open>debug_string\<close>. \<^verbatim>\<open>type_string()\<close> reads
  \<^verbatim>\<open>kIRNodeStrings\<close> at the node's tag, which for a tag that is not a node type lies
  outside the array.
\<close>

definition MetadataResolverIR_ToProto :: "IRNode \<Rightarrow> 'pb \<Rightarrow> unit StatusOr \<times> 'pb" where
  "MetadataResolverIR_ToProto n op_pb =
     (case TypeString (node_type n) of
        None \<Rightarrow> (Inl (Undefined ''kIRNodeStrings read out of bounds''), op_pb)
      | Some type_string \<Rightarrow>
          (Inl (Unimplemented (''Calling ToProto on '' @ type_string
                               @ '', which lacks a Protobuf representation.'')), op_pb))"

definition GroupByIR_ToProto :: "IRNode \<Rightarrow> 'pb \<Rightarrow> unit StatusOr \<times> 'pb" where
  "GroupByIR_ToProto n op_pb = (Inl (Unimplemented ''ToProto not implemented.''), op_pb)"

definition TabletSourceGroupIR_ToProto ::
  "(IRNode \<Rightarrow> string) \<Rightarrow> IRNode \<Rightarrow> 'pb \<Rightarrow> unit StatusOr \<times> 'pb" where
  "TabletSourceGroupIR_ToProto debug_string n op_pb =
     (Inl (Unimplemented (debug_string n
                          @ ''::ToProto not implemented because no use found for it yet.'')),
      op_pb)"

text \<open>
  Modelled from the spec: \<^verbatim>\<open>ToProto\<close> of the thirteen other operator classes is declared
  in the header and defined out of line. "Each Operator variant contributes its own
  plan-operator encoding": the call stores the node's encoding, \<open>encoding n\<close>, in the
  message and returns OK.
\<close>

definition ToProto_out_of_line :: "(IRNode \<Rightarrow> 'pb) \<Rightarrow> IRNode \<Rightarrow> 'pb \<Rightarrow> unit StatusOr \<times> 'pb" where
  "ToProto_out_of_line encoding n op_pb = (Inr (), encoding n)"

text \<open>
  The virtual call \<^verbatim>\<open>OperatorIR::ToProto(planpb::Operator*)\<close>, dispatched on the node's
  class. A node that is not an operator has no such method: \<open>None\<close>.
\<close>

definition OperatorIR_ToProto ::
  "(IRNode \<Rightarrow> 'pb) \<Rightarrow> (IRNode \<Rightarrow> string) \<Rightarrow> IRNode \<Rightarrow> 'pb \<Rightarrow> (unit StatusOr \<times> 'pb) option" where
  "OperatorIR_ToProto encoding debug_string n op_pb =
     (if \<not> IsOperator (node_type n) then None
      else if node_type n = kMetadataResolver then Some (MetadataResolverIR_ToProto n op_pb)
      else if node_type n = kGroupBy then Some (GroupByIR_ToProto n op_pb)
      else if node_type n = kTabletSourceGroup
        then Some (TabletSourceGroupIR_ToProto debug_string n op_pb)
      else Some (ToProto_out_of_line encoding n op_pb))"

definition is_Unimplemented :: "unit StatusOr \<Rightarrow> bool" where
  "is_Unimplemented r =
     (case r of
        Inl (StatusError s) \<Rightarrow> code s = UNIMPLEMENTED
      | Inl (CheckFailure m) \<Rightarrow> False
      | Inl (Undefined m) \<Rightarrow> False
      | Inr u \<Rightarrow> False)"

subsection \<open>Time literals\<close>

text \<open>
  \<^verbatim>\<open>TimeIR\<close>: a \<^verbatim>\<open>DataIR\<close> node with the member \<^verbatim>\<open>int64_t val_\<close> (here
  \<open>val_member\<close>), and its accessor \<^verbatim>\<open>bool val() const { return val_ != 0; }\<close>.
\<close>

record TimeIR = IRNode +
  val_member :: int64

definition TimeIR_val :: "TimeIR \<Rightarrow> bool" where
  "TimeIR_val t = (val_member t \<noteq> 0)"

subsection \<open>Metadata column names\<close>

definition kMetadataColumnPrefix :: string where
  "kMetadataColumnPrefix = ''_attr_''"

definition kUniquePIDColumn :: string where
  "kUniquePIDColumn = ''upid''"

text \<open>\<^verbatim>\<open>absl::AsciiStrToLower\<close>: the letters A to Z become a to z, every other byte stays.\<close>

definition ascii_tolower :: "char \<Rightarrow> char" where
  "ascii_tolower c =
     (let n = (of_char c :: nat) in if 65 \<le> n \<and> n \<le> 90 then char_of (n + 32) else c)"

definition AsciiStrToLower :: "string \<Rightarrow> string" where
  "AsciiStrToLower s = map ascii_tolower s"

text \<open>
  \<^verbatim>\<open>FormatMetadataColumn(const std::string_view col_name)\<close>:
  \<^verbatim>\<open>absl::Substitute("$0$1", kMetadataColumnPrefix, col_name)\<close>.
\<close>

definition FormatMetadataColumn_name :: "string \<Rightarrow> string" where
  "FormatMetadataColumn_name col_name = kMetadataColumnPrefix @ col_name"

text \<open>
  The enumeration \<^verbatim>\<open>metadatapb::MetadataType\<close> and its generated name function
  \<^verbatim>\<open>MetadataType_Name\<close> come from a protocol file that is not among the sources: the
  type of metadata types is a type variable, and the enumerator \<open>UPID\<close> and the name
  function are arguments.
\<close>

definition GetMetadataString :: "'mt \<Rightarrow> ('mt \<Rightarrow> string) \<Rightarrow> 'mt \<Rightarrow> string" where
  "GetMetadataString UPID MetadataType_Name metadata_type =
     (if metadata_type = UPID then kUniquePIDColumn
      else AsciiStrToLower (MetadataType_Name metadata_type))"

definition FormatMetadataColumn :: "'mt \<Rightarrow> ('mt \<Rightarrow> string) \<Rightarrow> 'mt \<Rightarrow> string" where
  "FormatMetadataColumn UPID MetadataType_Name metadata_type =
     (if metadata_type = UPID then kUniquePIDColumn
      else FormatMetadataColumn_name (GetMetadataString UPID MetadataType_Name metadata_type))"

subsection \<open>Join nodes\<close>

datatype JoinType = kLeft | kRight | kOuter | kInner

text \<open>
  The members of \<^verbatim>\<open>JoinIR\<close>; a \<^verbatim>\<open>ColumnIR*\<close> is the id of the column node.
  \<open>specified_as_right\<close> starts false.
\<close>

record JoinIR = IRNode +
  join_type :: JoinType
  output_columns :: "int64 list"
  column_names :: "string list"
  left_on_columns :: "int64 list"
  right_on_columns :: "int64 list"
  suffix_strs :: "string list"
  specified_as_right :: bool

text \<open>\<^verbatim>\<open>Status SetJoinType(JoinType join_type)\<close>.\<close>

definition SetJoinType :: "JoinType \<Rightarrow> JoinIR \<Rightarrow> unit StatusOr \<times> JoinIR" where
  "SetJoinType jt j = (Inr (), j\<lparr>join_type := jt\<rparr>)"

text \<open>
  \<^verbatim>\<open>Status SetJoinType(const std::string& join_type)\<close>. The private \<^verbatim>\<open>GetJoinEnum\<close> is
  declared in the header and defined out of line: it is an argument. On an error
  \<^verbatim>\<open>PL_ASSIGN_OR_RETURN\<close> returns it before anything is assigned.
\<close>

definition SetJoinType_string ::
  "(JoinIR \<Rightarrow> string \<Rightarrow> JoinType StatusOr) \<Rightarrow> string \<Rightarrow> JoinIR \<Rightarrow> unit StatusOr \<times> JoinIR" where
  "SetJoinType_string GetJoinEnum s j =
     (case GetJoinEnum j s of
        Inl e \<Rightarrow> (Inl e, j)
      | Inr jt \<Rightarrow>
          (let j1 = j\<lparr>join_type := jt\<rparr>;
               j2 = (if join_type j1 = kRight then j1\<lparr>specified_as_right := True\<rparr> else j1)
           in (Inr (), j2)))"

text \<open>The two ways of setting the join type.\<close>

datatype set_join_type = ByEnum JoinType | ByString string

fun apply_set_join_type ::
  "(JoinIR \<Rightarrow> string \<Rightarrow> JoinType StatusOr) \<Rightarrow> set_join_type \<Rightarrow> JoinIR \<Rightarrow> unit StatusOr \<times> JoinIR" where
  "apply_set_join_type GetJoinEnum (ByEnum jt) j = SetJoinType jt j"
| "apply_set_join_type GetJoinEnum (ByString s) j = SetJoinType_string GetJoinEnum s j"

text \<open>
  For evaluating the model: a \<^verbatim>\<open>DebugString\<close> that prints the node's type, and a plan
  encoding that records it.
\<close>

definition example_DebugString :: "IRNode \<Rightarrow> string" where
  "example_DebugString n = (case TypeString (node_type n) of None \<Rightarrow> ''?'' | Some s \<Rightarrow> s)"

definition example_encoding :: "IRNode \<Rightarrow> IRNodeType option" where
  "example_encoding n = Some (node_type n)"


text \<open>
  For evaluating the model: a join node as its constructor leaves it (\<^verbatim>\<open>join_type_\<close> has
  no initialiser; here the memory holds \<open>kInner\<close>), and a table for \<^verbatim>\<open>GetJoinEnum\<close>
  (the source's own table is defined out of line).
\<close>

definition fresh_join :: JoinIR where
  "fresh_join = IRNode.extend (IRNode_ctor blank 7 kJoin)
     (JoinIR.fields kInner [] [] [] [] [] False)"

definition GetJoinEnum_table :: "JoinIR \<Rightarrow> string \<Rightarrow> JoinType StatusOr" where
  "GetJoinEnum_table j s =
     (if s = ''inner'' then Inr kInner
      else if s = ''left'' then Inr kLeft
      else if s = ''outer'' then Inr kOuter
      else if s = ''right'' then Inr kRight
      else Inl (StatusError \<lparr>code = INVALID_ARGUMENT, msg = s\<rparr>))"




section \<open>Cron script store service (package cronscript)\<close>

text \<open>
  A Go \<^verbatim>\<open>error\<close> is nil or an error value: \<open>'e option\<close>. A cron script is a record with
  an \<^verbatim>\<open>ID\<close> (a \<^verbatim>\<open>*uuidpb.UUID\<close>) and further fields that the sources do not show; they
  live in the record's extension. The functions \<^verbatim>\<open>utils.UUIDFromProtoOrNil\<close> and
  \<^verbatim>\<open>uuid.UUID.String\<close> belong to other packages and are arguments.
\<close>

record 'p CronScript =
  ID :: 'p

text \<open>
  The interface \<^verbatim>\<open>Store\<close>: four methods of an injected datastore. The datastore has a
  state of its own, \<open>'st\<close>, which every call may change.
\<close>

record ('st, 'sc, 'u, 'e) Store =
  GetCronScripts :: "'st \<Rightarrow> ('sc list \<times> 'e option) \<times> 'st"
  UpsertCronScript :: "'sc \<Rightarrow> 'st \<Rightarrow> 'e option \<times> 'st"
  DeleteCronScript :: "'u \<Rightarrow> 'st \<Rightarrow> 'e option \<times> 'st"
  SetCronScripts :: "'sc list \<Rightarrow> 'st \<Rightarrow> 'e option \<times> 'st"

text \<open>
  \<^verbatim>\<open>Server\<close>: the store, and the channel \<^verbatim>\<open>done\<close> with its \<^verbatim>\<open>sync.Once\<close> (whether the
  channel is closed, and whether the once has fired).
\<close>

record ('st, 'sc, 'u, 'e) Server =
  ds :: "('st, 'sc, 'u, 'e) Store"
  done_closed :: bool
  once_fired :: bool

definition New :: "('st, 'sc, 'u, 'e) Store \<Rightarrow> ('st, 'sc, 'u, 'e) Server" where
  "New store = \<lparr>ds = store, done_closed = False, once_fired = False\<rparr>"

definition Stop :: "('st, 'sc, 'u, 'e) Server \<Rightarrow> ('st, 'sc, 'u, 'e) Server" where
  "Stop s = (if once_fired s then s else s\<lparr>done_closed := True, once_fired := True\<rparr>)"

text \<open>
  Requests and responses. \<^verbatim>\<open>SetScriptsRequest.Scripts\<close> is a Go map; ranging over it
  visits the entries in an unspecified order, so the request carries its entries as a
  list in the order of that visit.
\<close>

datatype GetScriptsRequest = GetScriptsRequest

record 'sc GetScriptsResponse =
  resp_Scripts :: "string \<rightharpoonup> 'sc"

record 'sc AddOrUpdateScriptRequest =
  Script :: 'sc

datatype AddOrUpdateScriptResponse = AddOrUpdateScriptResponse

record 'p DeleteScriptRequest =
  ScriptID :: 'p

datatype DeleteScriptResponse = DeleteScriptResponse

record 'sc SetScriptsRequest =
  req_Scripts :: "(string \<times> 'sc) list"

datatype SetScriptsResponse = SetScriptsResponse

text \<open>
  The loop of \<^verbatim>\<open>GetScripts\<close>:
  \<^verbatim>\<open>for _, s := range scripts { scMap[id.String()] = s }\<close>, with \<open>key s\<close> for
  \<^verbatim>\<open>utils.UUIDFromProtoOrNil(s.ID).String()\<close>.
\<close>

fun scMap_loop :: "('sc \<Rightarrow> string) \<Rightarrow> 'sc list \<Rightarrow> (string \<rightharpoonup> 'sc) \<Rightarrow> (string \<rightharpoonup> 'sc)" where
  "scMap_loop key [] scMap = scMap"
| "scMap_loop key (s # scripts) scMap = scMap_loop key scripts (scMap(key s \<mapsto> s))"

definition script_key ::
  "('p \<Rightarrow> 'u) \<Rightarrow> ('u \<Rightarrow> string) \<Rightarrow> ('p, 'z) CronScript_scheme \<Rightarrow> string" where
  "script_key UUIDFromProtoOrNil UUID_String s = UUID_String (UUIDFromProtoOrNil (ID s))"

text \<open>
  The four handlers. Each returns the Go pair of a response pointer (\<open>None\<close> is nil) and
  an error, and the datastore's new state.
\<close>

definition GetScripts ::
  "('p \<Rightarrow> 'u) \<Rightarrow> ('u \<Rightarrow> string) \<Rightarrow> ('st, ('p, 'z) CronScript_scheme, 'u, 'e) Server
     \<Rightarrow> GetScriptsRequest \<Rightarrow> 'st
     \<Rightarrow> (('p, 'z) CronScript_scheme GetScriptsResponse option \<times> 'e option) \<times> 'st" where
  "GetScripts UUIDFromProtoOrNil UUID_String s req st =
     (case GetCronScripts (ds s) st of
        ((scripts, Some err), st1) \<Rightarrow> ((None, Some err), st1)
      | ((scripts, None), st1) \<Rightarrow>
          ((Some \<lparr>resp_Scripts =
                    scMap_loop (script_key UUIDFromProtoOrNil UUID_String) scripts Map.empty\<rparr>,
            None), st1))"

definition AddOrUpdateScript ::
  "('st, 'sc, 'u, 'e) Server \<Rightarrow> 'sc AddOrUpdateScriptRequest \<Rightarrow> 'st
     \<Rightarrow> (AddOrUpdateScriptResponse option \<times> 'e option) \<times> 'st" where
  "AddOrUpdateScript s req st =
     (case UpsertCronScript (ds s) (Script req) st of
        (Some err, st1) \<Rightarrow> ((None, Some err), st1)
      | (None, st1) \<Rightarrow> ((Some AddOrUpdateScriptResponse, None), st1))"

definition DeleteScript ::
  "('p \<Rightarrow> 'u) \<Rightarrow> ('st, 'sc, 'u, 'e) Server \<Rightarrow> 'p DeleteScriptRequest \<Rightarrow> 'st
     \<Rightarrow> (DeleteScriptResponse option \<times> 'e option) \<times> 'st" where
  "DeleteScript UUIDFromProtoOrNil s req st =
     (case DeleteCronScript (ds s) (UUIDFromProtoOrNil (ScriptID req)) st of
        (Some err, st1) \<Rightarrow> ((None, Some err), st1)
      | (None, st1) \<Rightarrow> ((Some DeleteScriptResponse, None), st1))"

text \<open>
  \<^verbatim>\<open>SetScripts\<close> collects the values of the request's map and ends with
  \<^verbatim>\<open>return &metadatapb.SetScriptsResponse{}, s.ds.SetCronScripts(scripts)\<close>.
\<close>

fun SetScripts_loop :: "(string \<times> 'sc) list \<Rightarrow> 'sc list \<Rightarrow> 'sc list" where
  "SetScripts_loop [] scripts = scripts"
| "SetScripts_loop ((k, v) # rest) scripts = SetScripts_loop rest (scripts @ [v])"

definition SetScripts ::
  "('st, 'sc, 'u, 'e) Server \<Rightarrow> 'sc SetScriptsRequest \<Rightarrow> 'st
     \<Rightarrow> (SetScriptsResponse option \<times> 'e option) \<times> 'st" where
  "SetScripts s req st =
     (let scripts = SetScripts_loop (req_Scripts req) []
      in case SetCronScripts (ds s) scripts st of
           (err, st1) \<Rightarrow> ((Some SetScriptsResponse, err), st1))"

text \<open>
  For evaluating the model: a datastore without state whose every method fails with the
  same error, and one that holds a list of scripts; ids are strings, rendered as they
  are.
\<close>

definition failing_store :: "(unit, string CronScript, string, string) Store" where
  "failing_store =
     \<lparr>GetCronScripts = (\<lambda>st. (([], Some ''store unavailable''), st)),
      UpsertCronScript = (\<lambda>script st. (Some ''store unavailable'', st)),
      DeleteCronScript = (\<lambda>i st. (Some ''store unavailable'', st)),
      SetCronScripts = (\<lambda>scripts st. (Some ''store unavailable'', st))\<rparr>"

definition list_store :: "(string CronScript list, string CronScript, string, string) Store" where
  "list_store =
     \<lparr>GetCronScripts = (\<lambda>st. ((st, None), st)),
      UpsertCronScript = (\<lambda>script st. (None, script # filter (\<lambda>s. ID s \<noteq> ID script) st)),
      DeleteCronScript = (\<lambda>i st. (None, filter (\<lambda>s. ID s \<noteq> i) st)),
      SetCronScripts = (\<lambda>scripts st. (None, scripts))\<rparr>"

definition example_scripts :: "string CronScript list" where
  "example_scripts = [\<lparr>ID = ''a''\<rparr>, \<lparr>ID = ''b''\<rparr>]"

section \<open>Deployment configuration generator (package main)\<close>

text \<open>
  A Go error value is its message. A run of the program ends in one of three ways:
  \<^verbatim>\<open>log.Fatal\<close> logs a message and exits with status 1; a panic (from
  \<^verbatim>\<open>template.Must\<close>, or a slice bound out of range) prints its message and aborts; or
  \<^verbatim>\<open>main\<close> returns.
\<close>

type_synonym go_error = string

datatype outcome = Fatal string | Panic string | Returned

text \<open>
  What a run does to the world outside, in order: every call that reads or changes the
  file system, standard input or a subprocess, with the error it gave (\<open>None\<close> is nil),
  and every line logged or printed.
\<close>

datatype event =
    FindBazelWorkspaceRoot_call "go_error option"
  | GetStdinInput_call string "go_error option"
  | Printf_call string
  | Log_Infof string
  | Log_Errorf string
  | MkdirAll_call string "go_error option"
  | Walk_call string "go_error option"
  | ReadFile_call string "go_error option"
  | UnmarshalText_call "go_error option"
  | Create_call string "go_error option"
  | ParseFiles_call string "go_error option"
  | Execute_call string "go_error option"
  | Close_call string "go_error option"
  | FileExists_call string bool
  | Chdir_call string "go_error option"
  | RunCmd_call string "go_error option"

text \<open>
  \<^verbatim>\<open>pb.ServiceConfig\<close> comes from a protocol file that is not among the sources; the
  program reads its field \<^verbatim>\<open>Deployment\<close>. \<^verbatim>\<open>serviceConfigExt\<close> embeds it and adds
  \<^verbatim>\<open>BuildDir\<close>.
\<close>

record ServiceConfig =
  Deployment :: string

record serviceConfigExt = ServiceConfig +
  BuildDir :: string

text \<open>\<^verbatim>\<open>os.FileInfo\<close>, as far as the walk's callback reads it.\<close>

record FileInfo =
  IsDir :: bool
  Name :: string

text \<open>What a \<^verbatim>\<open>filepath.WalkFunc\<close> returns: nil, \<^verbatim>\<open>filepath.SkipDir\<close> or another error.\<close>

datatype walk_result = WalkNil | SkipDir | WalkError go_error

type_synonym WalkFunc =
  "string \<Rightarrow> FileInfo \<Rightarrow> go_error option \<Rightarrow> string list \<Rightarrow> walk_result \<times> string list"

text \<open>
  The world of one run: what \<^verbatim>\<open>viper\<close> resolved from the flags and the \<^verbatim>\<open>PL_\<close>
  environment, the answers typed on standard input, the result of every call into the
  operating system and into the repository's \<^verbatim>\<open>utils\<close> package, and the library's
  string functions. \<^verbatim>\<open>filepath.Walk\<close> is the library's: it takes the callback and the
  list the callback appends to, and returns its error and the list. When it passes an
  error to the callback the \<^verbatim>\<open>os.FileInfo\<close> may be nil; the callback returns before it
  reads it.
\<close>

record world =
  GetString :: "string \<Rightarrow> string"
  GetBool :: "string \<Rightarrow> bool"
  FindBazelWorkspaceRoot :: "nat \<Rightarrow> go_error + string"
  stdin :: "(go_error + string) list"
  MkdirAll :: "string \<Rightarrow> go_error option"
  Walk :: "string \<Rightarrow> WalkFunc \<Rightarrow> string list \<Rightarrow> go_error option \<times> string list"
  ReadFile :: "string \<Rightarrow> go_error + string"
  UnmarshalText :: "string \<Rightarrow> go_error + ServiceConfig"
  Create :: "string \<Rightarrow> go_error option"
  ParseFiles :: "string \<Rightarrow> go_error + string"
  Execute :: "string \<Rightarrow> string \<Rightarrow> serviceConfigExt \<Rightarrow> go_error option"
  Close :: "string \<Rightarrow> go_error option"
  FileExists :: "string \<Rightarrow> bool"
  Chdir :: "string \<Rightarrow> go_error option"
  RunCmd :: "string \<Rightarrow> go_error option"
  path_Join :: "string \<Rightarrow> string \<Rightarrow> string"
  path_Ext :: "string \<Rightarrow> string"
  path_Dir :: "string \<Rightarrow> string"
  filepath_Ext :: "string \<Rightarrow> string"
  strings_Replace :: "string \<Rightarrow> string \<Rightarrow> string \<Rightarrow> string"
  strings_ToLower :: "string \<Rightarrow> string"

text \<open>
  A function of the program takes the events so far and returns them extended, with
  either its result (\<open>Inr\<close>) or the way the process ended inside it (\<open>Inl\<close>).
\<close>

type_synonym 'a run = "(outcome + 'a) \<times> event list"

text \<open>
  \<^verbatim>\<open>parseArgs\<close>. The flags are declared and parsed by \<^verbatim>\<open>pflag\<close> and bound by
  \<^verbatim>\<open>viper\<close>; the function's own part is the two checks.
\<close>

definition parseArgs :: "world \<Rightarrow> event list \<Rightarrow> unit run" where
  "parseArgs w tr =
     (if GetString w ''build_dir'' = ''''
      then (Inl (Fatal ''Flag --build_dir is required. Please specify build_dir as an argument. Refer to the usage menu (-h) for more help.''), tr)
      else if GetBool w ''prod'' \<and> GetBool w ''staging''
      then (Inl (Fatal ''Flags --prod and --staging can only be used exclusively. Please remove one to specify the environment''), tr)
      else (Inr (), tr))"

text \<open>
  The loop of \<^verbatim>\<open>getConfirmationForPush\<close>, over the answers that standard input still
  holds. It runs until an answer is y or n or the read fails; when the answers run out
  before that, the run has not ended: \<open>None\<close>.
\<close>

fun getConfirmationForPush_loop ::
  "world \<Rightarrow> string \<Rightarrow> (go_error + string) list \<Rightarrow> event list \<Rightarrow> bool run option" where
  "getConfirmationForPush_loop w env [] tr = None"
| "getConfirmationForPush_loop w env (Inl err # answers) tr =
     Some (Inl (Fatal ''Reading StdIn failed''),
           tr @ [GetStdinInput_call (''Are you sure you want to push to '' @ env @ ''? [Y/n] '')
                   (Some err)])"
| "getConfirmationForPush_loop w env (Inr answer # answers) tr =
     (let tr1 = tr @ [GetStdinInput_call
                        (''Are you sure you want to push to '' @ env @ ''? [Y/n] '') None];
          confirmation = strings_ToLower w answer
      in if confirmation = ''y'' then Some (Inr True, tr1)
         else if confirmation = ''n'' then Some (Inr False, tr1)
         else getConfirmationForPush_loop w env answers
                (tr1 @ [Printf_call (''Entered '' @ [CHR 0x22] @ confirmation @ [CHR 0x22]
                          @ ''. Please only use '' @ [CHR 0x22] @ ''y'' @ [CHR 0x22] @ '' or ''
                          @ [CHR 0x22] @ ''n'' @ [CHR 0x22] @ ''.'' @ [CHR 0x0A])]))"

definition getConfirmationForPush :: "world \<Rightarrow> string \<Rightarrow> event list \<Rightarrow> bool run option" where
  "getConfirmationForPush w env tr =
     (if env = ''dev'' then Some (Inr True, tr)
      else getConfirmationForPush_loop w env (stdin w) tr)"

text \<open>The callback that \<^verbatim>\<open>findTemplateFiles\<close> hands to \<^verbatim>\<open>filepath.Walk\<close>.\<close>

definition findTemplateFiles_walkFn :: "world \<Rightarrow> WalkFunc" where
  "findTemplateFiles_walkFn w path info err templateFiles =
     (case err of
        Some e \<Rightarrow> (WalkError e, templateFiles)
      | None \<Rightarrow>
          if IsDir info \<and> Name info = ''vendor'' then (SkipDir, templateFiles)
          else if filepath_Ext w path = ''.tmpl'' then (WalkNil, templateFiles @ [path])
          else (WalkNil, templateFiles))"

text \<open>\<^verbatim>\<open>findTemplateFiles\<close>: an error of the walk is logged, and the loop goes on.\<close>

fun findTemplateFiles_loop ::
  "world \<Rightarrow> string list \<Rightarrow> string list \<Rightarrow> event list \<Rightarrow> string list \<times> event list" where
  "findTemplateFiles_loop w [] templateFiles tr = (templateFiles, tr)"
| "findTemplateFiles_loop w (curPath # pathsToSearch) templateFiles tr =
     (case Walk w curPath (findTemplateFiles_walkFn w) templateFiles of
        (err, templateFiles1) \<Rightarrow>
          findTemplateFiles_loop w pathsToSearch templateFiles1
            (tr @ [Log_Infof (''Searching '' @ curPath), Walk_call curPath err]
                @ (case err of
                     None \<Rightarrow> []
                   | Some e \<Rightarrow> [Log_Errorf (''Error on findTemplateFiles while searching ''
                                              @ curPath)])))"

definition findTemplateFiles ::
  "world \<Rightarrow> string list \<Rightarrow> event list \<Rightarrow> string list \<times> event list" where
  "findTemplateFiles w pathsToSearch tr = findTemplateFiles_loop w pathsToSearch [] tr"

definition checkEnvironment :: "world \<Rightarrow> event list \<Rightarrow> bool run option" where
  "checkEnvironment w tr =
     (let environ = (if GetBool w ''prod'' then ''prod''
                     else if GetBool w ''staging'' then ''staging'' else ''dev'')
      in case getConfirmationForPush w environ tr of
           None \<Rightarrow> None
         | Some (Inl out, tr1) \<Rightarrow> Some (Inl out, tr1)
         | Some (Inr confirmed, tr1) \<Rightarrow>
             if \<not> confirmed
             then Some (Inr False,
                        tr1 @ [Log_Errorf (''Not confirmed for '' @ environ @ ''. Exiting.'')])
             else Some (Inr True, tr1))"

text \<open>\<^verbatim>\<open>loadConfig\<close>; it asks for the workspace root again, the second call of the run.\<close>

definition loadConfig :: "world \<Rightarrow> string \<Rightarrow> string \<Rightarrow> event list \<Rightarrow> serviceConfigExt run" where
  "loadConfig w configFile buildDir tr =
     (case FindBazelWorkspaceRoot w 1 of
        Inl err \<Rightarrow> (Inl (Fatal ''WORKSPACE directory could not be found''),
                     tr @ [FindBazelWorkspaceRoot_call (Some err)])
      | Inr totPath \<Rightarrow>
          (let tr1 = tr @ [FindBazelWorkspaceRoot_call None];
               localBuildDir = strings_Replace w buildDir totPath ''''
           in case ReadFile w configFile of
                Inl err \<Rightarrow> (Inl (Fatal (''Cannot read config file: '' @ configFile)),
                             tr1 @ [ReadFile_call configFile (Some err)])
              | Inr configBuf \<Rightarrow>
                  (let tr2 = tr1 @ [ReadFile_call configFile None]
                   in case UnmarshalText w configBuf of
                        Inl err \<Rightarrow> (Inl (Fatal ''Cannot Unmarshal protobuf.''),
                                     tr2 @ [UnmarshalText_call (Some err)])
                      | Inr pbServiceConfig \<Rightarrow>
                          (Inr \<lparr>Deployment = Deployment pbServiceConfig,
                                BuildDir = localBuildDir\<rparr>,
                           tr2 @ [UnmarshalText_call None]))))"

text \<open>
  \<^verbatim>\<open>generateServiceConfigs\<close>. The slice \<^verbatim>\<open>templateFile[0:len(templateFile)-len(ext)]\<close>
  panics when the bound is negative. The results of both \<^verbatim>\<open>os.MkdirAll\<close> calls of the
  program and of \<^verbatim>\<open>os.Chdir\<close> are dropped by the source.
\<close>

fun generateServiceConfigs ::
  "world \<Rightarrow> string list \<Rightarrow> string \<Rightarrow> string \<Rightarrow> serviceConfigExt \<Rightarrow> event list \<Rightarrow> unit run" where
  "generateServiceConfigs w [] buildDir totPath config tr = (Inr (), tr)"
| "generateServiceConfigs w (templateFile # templateFiles) buildDir totPath config tr =
     (let ext = path_Ext w templateFile
      in if length templateFile < length ext
         then (Inl (Panic ''runtime error: slice bounds out of range''), tr)
         else
          (let yamlOutputFile = take (length templateFile - length ext) templateFile
                                  @ ''_'' @ Deployment config @ ''.yaml'';
               yamlOutputFile = path_Join w buildDir
                                  (strings_Replace w yamlOutputFile totPath '''');
               outputPath = path_Dir w yamlOutputFile;
               tr1 = tr @ [MkdirAll_call outputPath (MkdirAll w outputPath)]
           in case Create w yamlOutputFile of
                Some err \<Rightarrow> (Inl (Fatal (''Could not create '' @ yamlOutputFile)),
                              tr1 @ [Create_call yamlOutputFile (Some err)])
              | None \<Rightarrow>
                  (let tr2 = tr1 @ [Create_call yamlOutputFile None]
                   in case ParseFiles w templateFile of
                        Inl err \<Rightarrow> (Inl (Panic err), tr2 @ [ParseFiles_call templateFile (Some err)])
                      | Inr Skaffoldtmpl \<Rightarrow>
                          (let tr3 = tr2 @ [ParseFiles_call templateFile None]
                           in case Execute w Skaffoldtmpl yamlOutputFile config of
                                Some err \<Rightarrow>
                                  (Inl (Fatal ''Could not create service yaml for skaffold (template error)''),
                                   tr3 @ [Execute_call yamlOutputFile (Some err)])
                              | None \<Rightarrow>
                                  (let tr4 = tr3 @ [Execute_call yamlOutputFile None]
                                   in case Close w yamlOutputFile of
                                        Some err \<Rightarrow>
                                          (Inl (Fatal (''Cannot close output file: '' @ yamlOutputFile)),
                                           tr4 @ [Close_call yamlOutputFile (Some err)])
                                      | None \<Rightarrow>
                                          generateServiceConfigs w templateFiles buildDir totPath
                                            config (tr4 @ [Close_call yamlOutputFile None]))))))"

definition startSkaffold :: "world \<Rightarrow> string \<Rightarrow> string \<Rightarrow> event list \<Rightarrow> unit run" where
  "startSkaffold w buildDir workspaceDir tr =
     (let skaffoldSubCmd = (if GetBool w ''prod'' \<or> GetBool w ''staging'' then ''run'' else ''dev'');
          environ = (if GetBool w ''prod'' then ''prod'' else ''dev'');
          skaffoldFile = path_Join w buildDir (''skaffold/skaffold_'' @ environ @ ''.yaml'')
      in if FileExists w skaffoldFile then
           (let skaffoldCmd = ''skaffold '' @ skaffoldSubCmd @ '' -f '' @ skaffoldFile;
                tr1 = tr @ [FileExists_call skaffoldFile True,
                            Chdir_call workspaceDir (Chdir w workspaceDir)]
            in case RunCmd w skaffoldCmd of
                 Some err \<Rightarrow>
                   (Inl (Fatal (''Error starting skaffold with cmd '' @ [CHR 0x22] @ skaffoldCmd
                                @ [CHR 0x22] @ ''.'')),
                    tr1 @ [RunCmd_call skaffoldCmd (Some err)])
               | None \<Rightarrow> (Inr (), tr1 @ [RunCmd_call skaffoldCmd None]))
         else (Inl (Fatal (''Can't find skaffold file '' @ skaffoldFile @ ''. Skaffold cannot run'')),
               tr @ [FileExists_call skaffoldFile False]))"

text \<open>
  \<^verbatim>\<open>main\<close>, from the first statement to the end of the process: how the run ended and
  what it did, or \<open>None\<close> when the answers on standard input ran out while the
  confirmation loop was still asking.
\<close>

definition main :: "world \<Rightarrow> (outcome \<times> event list) option" where
  "main w =
     (case parseArgs w [] of
        (Inl out, tr1) \<Rightarrow> Some (out, tr1)
      | (Inr u, tr1) \<Rightarrow>
          (let buildDir = GetString w ''build_dir''
           in case FindBazelWorkspaceRoot w 0 of
                Inl err \<Rightarrow> Some (Fatal ''WORKSPACE directory could not be found'',
                                  tr1 @ [FindBazelWorkspaceRoot_call (Some err)])
              | Inr totPath \<Rightarrow>
                  (case checkEnvironment w (tr1 @ [FindBazelWorkspaceRoot_call None]) of
                     None \<Rightarrow> None
                   | Some (Inl out, tr2) \<Rightarrow> Some (out, tr2)
                   | Some (Inr environValid, tr2) \<Rightarrow>
                       if \<not> environValid then Some (Returned, tr2)
                       else
                        (let tr3 = tr2 @ [MkdirAll_call buildDir (MkdirAll w buildDir)];
                             servicesDir = path_Join w totPath ''services'';
                             skaffoldDir = path_Join w totPath ''skaffold'';
                             dirsToTemplate = [skaffoldDir, servicesDir]
                         in case findTemplateFiles w dirsToTemplate tr3 of
                              (templateFiles, tr4) \<Rightarrow>
                                (let configEnviron = (if GetBool w ''prod'' then ''prod'' else ''dev'');
                                     configFile = path_Join w totPath
                                       (''templates/skaffold/skaffold_service_config_''
                                        @ configEnviron @ ''.pbtxt'')
                                 in case loadConfig w configFile buildDir tr4 of
                                      (Inl out, tr5) \<Rightarrow> Some (out, tr5)
                                    | (Inr config, tr5) \<Rightarrow>
                                        (case generateServiceConfigs w templateFiles buildDir
                                                totPath config tr5 of
                                           (Inl out, tr6) \<Rightarrow> Some (out, tr6)
                                         | (Inr u, tr6) \<Rightarrow>
                                             (case startSkaffold w buildDir totPath tr6 of
                                                (Inl out, tr7) \<Rightarrow> Some (out, tr7)
                                              | (Inr u, tr7) \<Rightarrow> Some (Returned, tr7))))))))"

text \<open>
  The failures that the program answers with \<^verbatim>\<open>log.Fatal\<close> or a panic: the workspace
  root not found, a failed read of standard input, of the configuration file, a failed
  parse of the configuration or of a template, a failed create, render or close of an
  output file, the manifest missing, and a failed subprocess.
\<close>

fun fatal_failure :: "event \<Rightarrow> bool" where
  "fatal_failure (FindBazelWorkspaceRoot_call (Some e)) = True"
| "fatal_failure (GetStdinInput_call p (Some e)) = True"
| "fatal_failure (ReadFile_call f (Some e)) = True"
| "fatal_failure (UnmarshalText_call (Some e)) = True"
| "fatal_failure (Create_call f (Some e)) = True"
| "fatal_failure (ParseFiles_call f (Some e)) = True"
| "fatal_failure (Execute_call f (Some e)) = True"
| "fatal_failure (Close_call f (Some e)) = True"
| "fatal_failure (FileExists_call f False) = True"
| "fatal_failure (RunCmd_call c (Some e)) = True"
| "fatal_failure ev = False"

fun ends_abnormally :: "outcome \<Rightarrow> bool" where
  "ends_abnormally (Fatal m) = True"
| "ends_abnormally (Panic m) = True"
| "ends_abnormally Returned = False"

text \<open>
  No such failure is continued past: wherever one occurs among the events of a run it is
  the last event, and the run ended with \<^verbatim>\<open>log.Fatal\<close> or a panic.
\<close>

definition fatal_is_last :: "outcome \<Rightarrow> event list \<Rightarrow> bool" where
  "fatal_is_last out tr \<longleftrightarrow>
     (\<forall>i < length tr. fatal_failure (tr ! i) \<longrightarrow> Suc i = length tr \<and> ends_abnormally out)"

definition no_fatal_failure :: "event list \<Rightarrow> bool" where
  "no_fatal_failure tr \<longleftrightarrow> (\<forall>ev \<in> set tr. \<not> fatal_failure ev)"

text \<open>The events that create a directory or a file, or start the subprocess.\<close>

fun creates_or_spawns :: "event \<Rightarrow> bool" where
  "creates_or_spawns (MkdirAll_call d e) = True"
| "creates_or_spawns (Create_call f e) = True"
| "creates_or_spawns (RunCmd_call c e) = True"
| "creates_or_spawns ev = False"

text \<open>
  A function's result respects the rule when, if the process ended inside it, the events
  satisfy \<open>fatal_is_last\<close>, and otherwise no fatal failure has occurred.
\<close>

definition run_ok :: "'a run \<Rightarrow> bool" where
  "run_ok r =
     (case fst r of Inl out \<Rightarrow> fatal_is_last out (snd r) | Inr v \<Rightarrow> no_fatal_failure (snd r))"


text \<open>
  For evaluating the model: a run in the dev environment in which every call succeeds.
  The workspace is \<open>/ws\<close>, each walked directory holds one template \<open>app.tmpl\<close>, and
  the string functions are simple ones that agree with the library's on the strings of
  this run.
\<close>

definition flat_Walk :: "string \<Rightarrow> WalkFunc \<Rightarrow> string list \<Rightarrow> go_error option \<times> string list" where
  "flat_Walk root walkFn acc =
     (case walkFn root \<lparr>IsDir = True, Name = root\<rparr> None acc of
        (WalkError e, acc1) \<Rightarrow> (Some e, acc1)
      | (SkipDir, acc1) \<Rightarrow> (None, acc1)
      | (WalkNil, acc1) \<Rightarrow>
          (case walkFn (root @ ''/app.tmpl'') \<lparr>IsDir = False, Name = ''app.tmpl''\<rparr> None acc1 of
             (WalkError e, acc2) \<Rightarrow> (Some e, acc2)
           | (r, acc2) \<Rightarrow> (None, acc2)))"


definition simple_Ext :: "string \<Rightarrow> string" where
  "simple_Ext p = (if drop (length p - 5) p = ''.tmpl'' then ''.tmpl'' else '''')"

definition simple_Dir :: "string \<Rightarrow> string" where
  "simple_Dir p = rev (tl (dropWhile (\<lambda>c. c \<noteq> CHR ''/'') (rev p)))"

definition simple_Replace :: "string \<Rightarrow> string \<Rightarrow> string \<Rightarrow> string" where
  "simple_Replace s old new =
     (if take (length old) s = old then new @ drop (length old) s else s)"

definition dev_world :: world where
  "dev_world =
     \<lparr>GetString = (\<lambda>k. if k = ''build_dir'' then ''/ws/build'' else ''''),
      GetBool = (\<lambda>k. False),
      FindBazelWorkspaceRoot = (\<lambda>n. Inr ''/ws''),
      stdin = [],
      MkdirAll = (\<lambda>p. None),
      Walk = flat_Walk,
      ReadFile = (\<lambda>p. Inr ''deployment: dev''),
      UnmarshalText = (\<lambda>s. Inr \<lparr>Deployment = ''dev''\<rparr>),
      Create = (\<lambda>p. None),
      ParseFiles = (\<lambda>p. Inr p),
      Execute = (\<lambda>t p c. None),
      Close = (\<lambda>p. None),
      FileExists = (\<lambda>p. True),
      Chdir = (\<lambda>p. None),
      RunCmd = (\<lambda>c. None),
      path_Join = (\<lambda>a b. if take 1 b = ''/'' then a @ b else a @ ''/'' @ b),
      path_Ext = simple_Ext,
      path_Dir = simple_Dir,
      filepath_Ext = simple_Ext,
      strings_Replace = simple_Replace,
      strings_ToLower = AsciiStrToLower\<rparr>"

text \<open>The same run with both flags set, with an unreadable tree, with an unreadable file.\<close>

definition both_flags_world :: world where
  "both_flags_world = dev_world\<lparr>GetBool := (\<lambda>k. k = ''prod'' \<or> k = ''staging'')\<rparr>"




section \<open>Properties\<close>

subsection \<open>Signed 64-bit arithmetic\<close>
lemma sint_INT64_MAX: "sint INT64_MAX = 9223372036854775807"
  by (simp add: INT64_MAX_def)
lemma sint_succ_int64: "sint (k + 1) = sint k + 1" if "k \<noteq> INT64_MAX" for k :: int64
proof -
  have ne: "sint k \<noteq> 9223372036854775807"
  proof
    assume "sint k = 9223372036854775807"
    then have "sint k = sint INT64_MAX" by (simp add: sint_INT64_MAX)
    then have "k = INT64_MAX" by (rule signed_word_eqI)
    with that show False by simp
  qed
  have lt: "sint k < 9223372036854775808" using sint_lt [of k] by simp
  have ge: "- 9223372036854775808 \<le> sint k" using sint_ge [of k] by simp
  have "sint (k + 1) = signed_take_bit 63 (sint k + 1)"
    by (simp add: sint_word_ariths)
  also have "\<dots> = sint k + 1"
    using ne lt ge by (intro signed_take_bit_int_eq_self) simp_all
  finally show ?thesis .
qed
lemma sless_succ_int64: "k \<noteq> INT64_MAX \<Longrightarrow> k <s k + 1" for k :: int64
  by (simp add: word_sless_alt sint_succ_int64)
lemma std_max_ge2: "b \<le>s std_max a b"
  by (simp add: std_max_def word_sle_eq word_sless_alt)
lemma std_max_ge1: "a \<le>s std_max a b"
  by (simp add: std_max_def word_sle_eq word_sless_alt)

subsection \<open>Node creation and the id counter\<close>

lemma MakeNode_counter:
  "id_node_counter (snd (MakeNode this uninit t i ast g)) = std_max (i + 1) (id_node_counter g)"
  by (simp add: MakeNode_def Let_def)

lemma MakeNode_result: "fst (MakeNode this uninit t i ast g) = Inr i"
  by (simp add: MakeNode_def Let_def IRNode_ctor_def SetGraphPtr_def SetLineCol_def split: option.split)

lemma create_counter_mono: "id_node_counter g \<le>s id_node_counter (snd (create this uninit c g))"
  by (cases c) (simp_all add: MakeNode_ast_def MakeNode_id_def MakeNode_counter std_max_ge2)

lemma create_all_counter_mono:
  "id_node_counter g \<le>s id_node_counter (snd (create_all this uninit cs g))"
proof (induction cs arbitrary: g)
  case Nil
  show ?case by simp
next
  case (Cons c cs)
  have "id_node_counter g \<le>s id_node_counter (snd (create this uninit c g))"
    by (rule create_counter_mono)
  also have "\<dots> \<le>s id_node_counter (snd (create_all this uninit cs (snd (create this uninit c g))))"
    by (rule Cons.IH)
  finally show ?case by (simp add: split_beta)
qed

lemma MakeNode_counter_above:
  "k \<noteq> INT64_MAX \<Longrightarrow> k <s id_node_counter (snd (MakeNode this uninit t k ast g))"
  unfolding MakeNode_counter
  using sless_succ_int64 [of k] std_max_ge1 [of "k + 1" "id_node_counter g"]
  by (rule signed.less_le_trans)

lemma create_all_fresh_ge:
  "(c, r) \<in> set (fst (create_all this uninit cs g)) \<Longrightarrow> is_Fresh c
   \<Longrightarrow> \<exists>i. r = Inr i \<and> id_node_counter g \<le>s i"
proof (induction cs arbitrary: g)
  case Nil
  then show ?case by simp
next
  case (Cons d ds)
  let ?g1 = "snd (create this uninit d g)"
  from Cons.prems(1) have "(c, r) = (d, fst (create this uninit d g))
      \<or> (c, r) \<in> set (fst (create_all this uninit ds ?g1))"
    by (simp add: split_beta)
  then show ?case
  proof
    assume eq: "(c, r) = (d, fst (create this uninit d g))"
    with Cons.prems(2) obtain t a where d: "d = Fresh t a" by (cases d) auto
    with eq have "r = Inr (id_node_counter g)"
      by (simp add: MakeNode_ast_def MakeNode_result)
    then show ?thesis by simp
  next
    assume "(c, r) \<in> set (fst (create_all this uninit ds ?g1))"
    from Cons.IH [OF this Cons.prems(2)] obtain i
      where i: "r = Inr i" "id_node_counter ?g1 \<le>s i" by blast
    have "id_node_counter g \<le>s id_node_counter ?g1" by (rule create_counter_mono)
    with i(2) have "id_node_counter g \<le>s i" by (rule signed.order_trans [rotated])
    with i(1) show ?thesis by simp
  qed
qed

text \<open>
  C3 (as amended). Over every sequence of node creations, with a fresh or a supplied id,
  the counter \<open>id_node_counter\<close> never decreases in the signed order. After a node is
  created with a supplied id \<open>k\<close> other than the largest 64-bit value, the counter is
  strictly above \<open>k\<close>, it stays above \<open>k\<close> over every later sequence of creations, and
  no later creation with a fresh id receives \<open>k\<close>.
\<close>

theorem MakeNode_counter_monotone:
  "id_node_counter g \<le>s id_node_counter (snd (create_all this uninit cs g)) \<and>
   (k \<noteq> INT64_MAX \<longrightarrow>
      k <s id_node_counter (snd (MakeNode this uninit t k ast g)) \<and>
      k <s id_node_counter (snd (create_all this uninit cs (snd (MakeNode this uninit t k ast g)))) \<and>
      (\<forall>c r. (c, r) \<in> set (fst (create_all this uninit cs (snd (MakeNode this uninit t k ast g))))
              \<longrightarrow> is_Fresh c \<longrightarrow> r \<noteq> Inr k))"
proof (intro conjI impI allI)
  show "id_node_counter g \<le>s id_node_counter (snd (create_all this uninit cs g))"
    by (rule create_all_counter_mono)
next
  let ?g1 = "snd (MakeNode this uninit t k ast g)"
  assume k: "k \<noteq> INT64_MAX"
  then show above: "k <s id_node_counter ?g1" by (rule MakeNode_counter_above)
  show "k <s id_node_counter (snd (create_all this uninit cs ?g1))"
    using above create_all_counter_mono by (rule signed.less_le_trans)
  fix c r
  assume "(c, r) \<in> set (fst (create_all this uninit cs ?g1))" "is_Fresh c"
  then obtain i where i: "r = Inr i" "id_node_counter ?g1 \<le>s i"
    using create_all_fresh_ge by blast
  from above i(2) have "k <s i" by (rule signed.less_le_trans)
  then have "k \<noteq> i" by auto
  with i(1) show "r \<noteq> Inr k" by simp
qed


theorem MakeNode_counter_monotone_witness:
  "(5::int64) \<noteq> INT64_MAX \<and>
   id_node_counter (snd (MakeNode 0 blank kMap 5 None IR_empty)) = 6 \<and>
   (5::int64) <s id_node_counter (snd (create_all 0 blank [Fresh kInt None, Supplied kMap 2]
        (snd (MakeNode 0 blank kMap 5 None IR_empty)))) \<and>
   fst (create_all 0 blank [Fresh kInt None, Supplied kMap 2]
        (snd (MakeNode 0 blank kMap 5 None IR_empty)))
     = [(Fresh kInt None, Inr 6), (Supplied kMap 2, Inr 2)]"
  using MakeNode_counter_monotone [of IR_empty 0 blank "[Fresh kInt None, Supplied kMap 2]" 5 kMap None]
  by (simp add: INT64_MAX_def MakeNode_def MakeNode_ast_def MakeNode_id_def IR_empty_def std_max_def word_sless_alt Let_def
      IRNode_ctor_def SetGraphPtr_def blank_def DAG_AddNode_def DAG_empty_def)

text \<open>
  At the supplied id \<open>INT64_MAX\<close> the sum \<open>id + 1\<close> wraps to the least value, the
  maximum keeps the old counter, and the counter of a new graph stays 0: it is not above
  the supplied id.
\<close>

theorem MakeNode_counter_INT64_MAX: "\<not> INT64_MAX <s id_node_counter (snd (MakeNode_id 0 blank kInt INT64_MAX IR_empty))"
  by (simp add: MakeNode_id_def MakeNode_def INT64_MAX_def IR_empty_def std_max_def word_sless_alt Let_def)

subsection \<open>Plan encoding of operators\<close>

lemma IsOperator_iff:
  "IsOperator t \<longleftrightarrow> t \<in> {kMemorySource, kMemorySink, kMetadataResolver, kMap, kDrop, kBlockingAgg,
     kGroupBy, kFilter, kLimit, kGRPCSink, kGRPCSource, kGRPCSourceGroup, kUnion, kJoin,
     kTabletSourceGroup, kUDTFSource}"
  by (cases t) simp_all

text \<open>
  C4. For a GroupBy node and for a MetadataResolver node, \<open>ToProto\<close> returns an
  Unimplemented status, whatever the message it is given and whatever the node's other
  members, and the message comes back as it went in: no plan encoding is produced. Among
  the sixteen operator variants, \<open>ToProto\<close> is Unimplemented exactly for GroupBy,
  MetadataResolver and TabletSourceGroup, and returns OK exactly for the others.
\<close>

theorem ToProto_Unimplemented:
  "(node_type n = kGroupBy \<longrightarrow>
      OperatorIR_ToProto encoding debug_string n op_pb
        = Some (Inl (StatusError \<lparr>code = UNIMPLEMENTED, msg = ''ToProto not implemented.''\<rparr>),
                op_pb)) \<and>
   (node_type n = kMetadataResolver \<longrightarrow>
      OperatorIR_ToProto encoding debug_string n op_pb
        = Some (Inl (StatusError \<lparr>code = UNIMPLEMENTED,
             msg = ''Calling ToProto on MetadataResolver, which lacks a Protobuf representation.''\<rparr>),
                op_pb)) \<and>
   (IsOperator (node_type n) \<longrightarrow>
      (\<exists>r pb1. OperatorIR_ToProto encoding debug_string n op_pb = Some (r, pb1) \<and>
         (is_Unimplemented r \<longleftrightarrow> node_type n \<in> {kGroupBy, kMetadataResolver, kTabletSourceGroup}) \<and>
         (r = Inr () \<longleftrightarrow> node_type n \<notin> {kGroupBy, kMetadataResolver, kTabletSourceGroup})))"
  by (simp add: OperatorIR_ToProto_def GroupByIR_ToProto_def MetadataResolverIR_ToProto_def
      TabletSourceGroupIR_ToProto_def ToProto_out_of_line_def Unimplemented_def is_Unimplemented_def)

theorem ToProto_Unimplemented_witness:
  "IsOperator kGroupBy \<and> IsOperator kMetadataResolver \<and> IsOperator kMap \<and>
   OperatorIR_ToProto example_encoding example_DebugString
       (blank\<lparr>node_type := kGroupBy\<rparr>) None
     = Some (Inl (StatusError \<lparr>code = UNIMPLEMENTED, msg = ''ToProto not implemented.''\<rparr>), None) \<and>
   OperatorIR_ToProto example_encoding example_DebugString
       (blank\<lparr>node_type := kMetadataResolver\<rparr>) None
     = Some (Inl (StatusError \<lparr>code = UNIMPLEMENTED,
          msg = ''Calling ToProto on MetadataResolver, which lacks a Protobuf representation.''\<rparr>),
             None) \<and>
   OperatorIR_ToProto example_encoding example_DebugString
       (blank\<lparr>node_type := kMap\<rparr>) None
     = Some (Inr (), Some kMap)"
  using
    ToProto_Unimplemented [of "blank\<lparr>node_type := kGroupBy\<rparr>" example_encoding
      example_DebugString None]
    ToProto_Unimplemented [of "blank\<lparr>node_type := kMetadataResolver\<rparr>" example_encoding
      example_DebugString None]
    ToProto_Unimplemented [of "blank\<lparr>node_type := kMap\<rparr>" example_encoding
      example_DebugString None]
  by (simp add: OperatorIR_ToProto_def ToProto_out_of_line_def example_encoding_def)

subsection \<open>The Time literal's accessor\<close>

text \<open>
  C5. A Time literal stores a 64-bit integer, and its accessor \<open>val()\<close> returns a
  boolean that is true exactly when the stored value is not zero. The accessor does not
  return the stored value: nodes that store 1 and 2 give the same \<open>val()\<close>.
\<close>

theorem TimeIR_val_is_nonzero_check:
  "(TimeIR_val t \<longleftrightarrow> val_member t \<noteq> 0) \<and>
   TimeIR_val (t\<lparr>val_member := 1\<rparr>) = TimeIR_val (t\<lparr>val_member := 2\<rparr>)"
  by (simp add: TimeIR_val_def)

subsection \<open>Metadata column names\<close>

text \<open>
  C9. For the unique-process-identifier metadata type the column name is exactly
  \<open>upid\<close>; for every other metadata type it is \<open>_attr_\<close> followed by the type's name
  in lower case.
\<close>

theorem FormatMetadataColumn_prefix:
  "FormatMetadataColumn UPID MetadataType_Name UPID = ''upid'' \<and>
   (metadata_type \<noteq> UPID \<longrightarrow>
      FormatMetadataColumn UPID MetadataType_Name metadata_type
        = ''_attr_'' @ map ascii_tolower (MetadataType_Name metadata_type))"
  by (simp add: FormatMetadataColumn_def GetMetadataString_def FormatMetadataColumn_name_def
      kMetadataColumnPrefix_def kUniquePIDColumn_def AsciiStrToLower_def)

theorem FormatMetadataColumn_prefix_witness:
  "''POD_NAME'' \<noteq> ''UPID'' \<and> FormatMetadataColumn ''UPID'' id ''UPID'' = ''upid'' \<and>
   FormatMetadataColumn ''UPID'' id ''POD_NAME'' = ''_attr_pod_name''"
proof -
  have lower: "map ascii_tolower ''POD_NAME'' = ''pod_name''"
    by code_simp
  show ?thesis
    using FormatMetadataColumn_prefix [of "''UPID''" id "''POD_NAME''"] lower by simp
qed

subsection \<open>The two ways of setting a join type\<close>

text \<open>
  C10. Setting the join type through the enumeration overload, also to \<open>kRight\<close>, leaves
  \<open>specified_as_right\<close> as it was (false on a node that has it false). Through the
  string overload the flag becomes true when the string is one that \<open>GetJoinEnum\<close> maps
  to \<open>kRight\<close>. Of the two overloads, only the string one given such a string turns a
  false flag into a true one.
\<close>

theorem SetJoinType_specified_as_right:
  "specified_as_right (snd (SetJoinType jt j)) = specified_as_right j \<and>
   join_type (snd (SetJoinType jt j)) = jt \<and>
   fst (SetJoinType jt j) = Inr () \<and>
   (GetJoinEnum j s = Inr kRight \<longrightarrow>
      fst (SetJoinType_string GetJoinEnum s j) = Inr () \<and>
      specified_as_right (snd (SetJoinType_string GetJoinEnum s j)) \<and>
      join_type (snd (SetJoinType_string GetJoinEnum s j)) = kRight) \<and>
   (\<not> specified_as_right j \<and> specified_as_right (snd (apply_set_join_type GetJoinEnum c j))
      \<longrightarrow> (\<exists>s. c = ByString s \<and> GetJoinEnum j s = Inr kRight))"
  by (cases c) (auto simp: SetJoinType_def SetJoinType_string_def Let_def split: sum.splits if_splits)

theorem SetJoinType_specified_as_right_witness:
  "GetJoinEnum_table fresh_join ''right'' = Inr kRight \<and>
   \<not> specified_as_right fresh_join \<and>
   specified_as_right (snd (apply_set_join_type GetJoinEnum_table (ByString ''right'') fresh_join)) \<and>
   join_type (snd (SetJoinType_string GetJoinEnum_table ''right'' fresh_join)) = kRight \<and>
   join_type (snd (SetJoinType kRight fresh_join)) = kRight \<and>
   \<not> specified_as_right (snd (SetJoinType kRight fresh_join))"
  using SetJoinType_specified_as_right
    [of kRight fresh_join GetJoinEnum_table "''right''" "ByString ''right''"]
  by (simp add: GetJoinEnum_table_def fresh_join_def IRNode.extend_def JoinIR.fields_def)

subsection \<open>Well-formed graphs\<close>

lemma MakeNode_edges [simp]:
  "dag_edges (dag (snd (MakeNode this uninit t i ast g))) = dag_edges (dag g)"
  by (simp add: MakeNode_def Let_def DAG_AddNode_def)

lemma MakeNode_nodes [simp]:
  "dag_nodes (dag (snd (MakeNode this uninit t i ast g))) = insert i (dag_nodes (dag g))"
  by (simp add: MakeNode_def Let_def DAG_AddNode_def IRNode_ctor_def SetGraphPtr_def
      SetLineCol_def split: option.split)





lemma AddEdge_map [simp]: "id_node_map (snd (AddEdge from to g)) = id_node_map g"
  by (simp add: AddEdge_def)

lemma AddEdge_nodes [simp]: "dag_nodes (dag (snd (AddEdge from to g))) = dag_nodes (dag g)"
  by (simp add: AddEdge_def DAG_AddEdge_def)

lemma AddEdge_counter [simp]: "id_node_counter (snd (AddEdge from to g)) = id_node_counter g"
  by (simp add: AddEdge_def)











subsection \<open>Copying a node\<close>








subsection \<open>Attaching a child that is already attached\<close>





subsection \<open>The id of a copy\<close>




section \<open>Properties of the cron script store service\<close>

lemma scMap_loop_dom: "dom (scMap_loop key scripts m) = dom m \<union> key ` set scripts"
  by (induction scripts arbitrary: m) auto

lemma scMap_loop_notin: "k \<notin> key ` set scripts \<Longrightarrow> scMap_loop key scripts m k = m k"
  by (induction scripts arbitrary: m) auto

lemma scMap_loop_in:
  "s \<in> set scripts \<Longrightarrow> \<exists>s1 \<in> set scripts. scMap_loop key scripts m (key s) = Some s1 \<and> key s1 = key s"
proof (induction scripts arbitrary: m s)
  case Nil
  then show ?case by simp
next
  case (Cons a scripts)
  have step: "scMap_loop key (a # scripts) m = scMap_loop key scripts (m(key a \<mapsto> a))"
    by simp
  have tail: "\<exists>s1 \<in> set (a # scripts). scMap_loop key (a # scripts) m (key b) = Some s1 \<and> key s1 = key b"
    if "b \<in> set scripts" for b
  proof -
    from Cons.IH [OF that, of "m(key a \<mapsto> a)"] obtain s1 where
      "s1 \<in> set scripts" "scMap_loop key scripts (m(key a \<mapsto> a)) (key b) = Some s1" "key s1 = key b"
      by blast
    then show ?thesis unfolding step by (intro bexI [of _ s1]) simp_all
  qed
  show ?case
  proof (cases "key s \<in> key ` set scripts")
    case True
    then obtain b where b: "b \<in> set scripts" "key b = key s" by auto
    from tail [OF b(1)] show ?thesis unfolding b(2) .
  next
    case False
    with Cons.prems have sa: "s = a" by auto
    from False have "scMap_loop key scripts (m(key a \<mapsto> a)) (key s) = (m(key a \<mapsto> a)) (key s)"
      by (rule scMap_loop_notin)
    then have "scMap_loop key (a # scripts) m (key s) = Some a"
      unfolding step by (simp add: sa)
    then show ?thesis using sa by simp
  qed
qed

lemma scMap_loop_distinct:
  "distinct (map key scripts) \<Longrightarrow> s \<in> set scripts \<Longrightarrow> scMap_loop key scripts m (key s) = Some s"
proof (induction scripts arbitrary: m)
  case Nil
  then show ?case by simp
next
  case (Cons a scripts)
  show ?case
  proof (cases "s = a")
    case True
    with Cons.prems(1) show ?thesis by (simp add: scMap_loop_notin)
  next
    case False
    with Cons show ?thesis by simp
  qed
qed

lemma SetScripts_loop_eq: "SetScripts_loop entries scripts = scripts @ map snd entries"
  by (induction entries scripts rule: SetScripts_loop.induct) simp_all

lemma GetScripts_error:
  "fst (GetCronScripts (ds s) st) = (scripts, Some err) \<Longrightarrow>
   fst (GetScripts UUIDFromProtoOrNil UUID_String s req st) = (None, Some err)"
  by (cases "GetCronScripts (ds s) st") (simp add: GetScripts_def)

lemma GetScripts_ok:
  "fst (GetCronScripts (ds s) st) = (scripts, None) \<Longrightarrow>
   fst (GetScripts UUIDFromProtoOrNil UUID_String s req st)
     = (Some \<lparr>resp_Scripts =
          scMap_loop (script_key UUIDFromProtoOrNil UUID_String) scripts Map.empty\<rparr>, None)"
  by (cases "GetCronScripts (ds s) st") (simp add: GetScripts_def)

lemma GetScripts_state:
  "snd (GetScripts UUIDFromProtoOrNil UUID_String s req st) = snd (GetCronScripts (ds s) st)"
  by (simp add: GetScripts_def split: prod.split option.split)

lemma AddOrUpdateScript_eq:
  "AddOrUpdateScript s req st =
     ((case fst (UpsertCronScript (ds s) (Script req) st) of
         Some err \<Rightarrow> (None, Some err) | None \<Rightarrow> (Some AddOrUpdateScriptResponse, None)),
      snd (UpsertCronScript (ds s) (Script req) st))"
  by (simp add: AddOrUpdateScript_def split: prod.split option.split)

lemma DeleteScript_eq:
  "DeleteScript UUIDFromProtoOrNil s req st =
     ((case fst (DeleteCronScript (ds s) (UUIDFromProtoOrNil (ScriptID req)) st) of
         Some err \<Rightarrow> (None, Some err) | None \<Rightarrow> (Some DeleteScriptResponse, None)),
      snd (DeleteCronScript (ds s) (UUIDFromProtoOrNil (ScriptID req)) st))"
  by (simp add: DeleteScript_def split: prod.split option.split)

lemma SetScripts_eq:
  "SetScripts s req st =
     ((Some SetScriptsResponse, fst (SetCronScripts (ds s) (map snd (req_Scripts req)) st)),
      snd (SetCronScripts (ds s) (map snd (req_Scripts req)) st))"
  by (simp add: SetScripts_def SetScripts_loop_eq Let_def split_beta)

text \<open>
  C6 (as amended). When the store returns an error, \<open>GetScripts\<close>,
  \<open>AddOrUpdateScript\<close> and \<open>DeleteScript\<close> return exactly that error and a nil
  response. \<open>SetScripts\<close> returns whatever error the store returns, unchanged, always
  together with an empty acknowledgement. Without an error, \<open>GetScripts\<close> returns a map
  whose keys are the UUID strings of the store's scripts; each key maps to a script of the
  list with that UUID string, and to the script itself when no two scripts share one;
  \<open>AddOrUpdateScript\<close> and \<open>DeleteScript\<close> return an empty acknowledgement. Every
  handler leaves the datastore in the state the store's method left it in.
\<close>

theorem Server_forwards_store_results:
  "(fst (GetCronScripts (ds s) st) = (scripts, Some err) \<longrightarrow>
      fst (GetScripts UUIDFromProtoOrNil UUID_String s GetScriptsRequest st) = (None, Some err)) \<and>
   (fst (GetCronScripts (ds s) st) = (scripts, None) \<longrightarrow>
      (\<exists>m. fst (GetScripts UUIDFromProtoOrNil UUID_String s GetScriptsRequest st)
              = (Some \<lparr>resp_Scripts = m\<rparr>, None) \<and>
           dom m = script_key UUIDFromProtoOrNil UUID_String ` set scripts \<and>
           (\<forall>sc \<in> set scripts. \<exists>sc1 \<in> set scripts.
               m (script_key UUIDFromProtoOrNil UUID_String sc) = Some sc1 \<and>
               script_key UUIDFromProtoOrNil UUID_String sc1
                 = script_key UUIDFromProtoOrNil UUID_String sc) \<and>
           (distinct (map (script_key UUIDFromProtoOrNil UUID_String) scripts) \<longrightarrow>
              (\<forall>sc \<in> set scripts. m (script_key UUIDFromProtoOrNil UUID_String sc) = Some sc)))) \<and>
   snd (GetScripts UUIDFromProtoOrNil UUID_String s GetScriptsRequest st)
     = snd (GetCronScripts (ds s) st) \<and>
   (fst (UpsertCronScript (ds s1) (Script req1) st1) = Some err1 \<longrightarrow>
      fst (AddOrUpdateScript s1 req1 st1) = (None, Some err1)) \<and>
   (fst (UpsertCronScript (ds s1) (Script req1) st1) = None \<longrightarrow>
      fst (AddOrUpdateScript s1 req1 st1) = (Some AddOrUpdateScriptResponse, None)) \<and>
   snd (AddOrUpdateScript s1 req1 st1) = snd (UpsertCronScript (ds s1) (Script req1) st1) \<and>
   (fst (DeleteCronScript (ds s2) (UUIDFromProtoOrNil2 (ScriptID req2)) st2) = Some err2 \<longrightarrow>
      fst (DeleteScript UUIDFromProtoOrNil2 s2 req2 st2) = (None, Some err2)) \<and>
   (fst (DeleteCronScript (ds s2) (UUIDFromProtoOrNil2 (ScriptID req2)) st2) = None \<longrightarrow>
      fst (DeleteScript UUIDFromProtoOrNil2 s2 req2 st2) = (Some DeleteScriptResponse, None)) \<and>
   snd (DeleteScript UUIDFromProtoOrNil2 s2 req2 st2)
     = snd (DeleteCronScript (ds s2) (UUIDFromProtoOrNil2 (ScriptID req2)) st2) \<and>
   SetScripts s3 req3 st3 =
     ((Some SetScriptsResponse, fst (SetCronScripts (ds s3) (map snd (req_Scripts req3)) st3)),
      snd (SetCronScripts (ds s3) (map snd (req_Scripts req3)) st3))"
proof (intro conjI impI)
  assume ok: "fst (GetCronScripts (ds s) st) = (scripts, None)"
  let ?key = "script_key UUIDFromProtoOrNil UUID_String"
  let ?m = "scMap_loop ?key scripts Map.empty"
  have "fst (GetScripts UUIDFromProtoOrNil UUID_String s GetScriptsRequest st)
          = (Some \<lparr>resp_Scripts = ?m\<rparr>, None)"
    using ok by (rule GetScripts_ok)
  moreover have "dom ?m = ?key ` set scripts" by (simp add: scMap_loop_dom)
  moreover have "\<forall>sc \<in> set scripts. \<exists>sc1 \<in> set scripts.
      ?m (?key sc) = Some sc1 \<and> ?key sc1 = ?key sc"
    using scMap_loop_in [of _ scripts ?key Map.empty] by blast
  moreover have "distinct (map ?key scripts) \<longrightarrow> (\<forall>sc \<in> set scripts. ?m (?key sc) = Some sc)"
    using scMap_loop_distinct [of ?key scripts _ Map.empty] by blast
  ultimately show "\<exists>m. fst (GetScripts UUIDFromProtoOrNil UUID_String s GetScriptsRequest st)
              = (Some \<lparr>resp_Scripts = m\<rparr>, None) \<and>
           dom m = ?key ` set scripts \<and>
           (\<forall>sc \<in> set scripts. \<exists>sc1 \<in> set scripts. m (?key sc) = Some sc1 \<and> ?key sc1 = ?key sc) \<and>
           (distinct (map ?key scripts) \<longrightarrow> (\<forall>sc \<in> set scripts. m (?key sc) = Some sc))"
    by blast
qed (simp_all add: GetScripts_error GetScripts_state AddOrUpdateScript_eq DeleteScript_eq
      SetScripts_eq)

text \<open>
  With a store whose \<open>SetCronScripts\<close> fails, \<open>SetScripts\<close> returns the error and,
  with it, a response that is not nil.
\<close>

theorem SetScripts_error_with_response:
  "fst (SetCronScripts (ds (New failing_store)) [] ()) = Some ''store unavailable'' \<and>
   fst (SetScripts (New failing_store) \<lparr>req_Scripts = []\<rparr> ())
     = (Some SetScriptsResponse, Some ''store unavailable'')"
  by (simp add: SetScripts_def New_def failing_store_def)

theorem Server_forwards_store_results_witness:
  "fst (GetCronScripts (ds (New failing_store)) ()) = ([], Some ''store unavailable'') \<and>
   fst (GetScripts id id (New failing_store) GetScriptsRequest ()) = (None, Some ''store unavailable'') \<and>
   fst (UpsertCronScript (ds (New failing_store)) (Script \<lparr>Script = \<lparr>ID = ''a''\<rparr>\<rparr>) ())
     = Some ''store unavailable'' \<and>
   fst (AddOrUpdateScript (New failing_store) \<lparr>Script = \<lparr>ID = ''a''\<rparr>\<rparr> ())
     = (None, Some ''store unavailable'') \<and>
   fst (DeleteCronScript (ds (New failing_store)) (id (ScriptID \<lparr>ScriptID = ''a''\<rparr>)) ())
     = Some ''store unavailable'' \<and>
   fst (DeleteScript id (New failing_store) \<lparr>ScriptID = ''a''\<rparr> ())
     = (None, Some ''store unavailable'') \<and>
   fst (GetCronScripts (ds (New list_store)) example_scripts) = (example_scripts, None) \<and>
   distinct (map (script_key id id) example_scripts) \<and>
   (\<exists>m. fst (GetScripts id id (New list_store) GetScriptsRequest example_scripts)
           = (Some \<lparr>resp_Scripts = m\<rparr>, None) \<and>
        dom m = {''a'', ''b''} \<and> m ''a'' = Some \<lparr>ID = ''a''\<rparr> \<and> m ''b'' = Some \<lparr>ID = ''b''\<rparr>) \<and>
   fst (UpsertCronScript (ds (New list_store)) (Script \<lparr>Script = \<lparr>ID = ''a''\<rparr>\<rparr>) example_scripts)
     = None \<and>
   fst (AddOrUpdateScript (New list_store) \<lparr>Script = \<lparr>ID = ''a''\<rparr>\<rparr> example_scripts)
     = (Some AddOrUpdateScriptResponse, None) \<and>
   fst (DeleteCronScript (ds (New list_store)) (id (ScriptID \<lparr>ScriptID = ''a''\<rparr>)) example_scripts)
     = None \<and>
   DeleteScript id (New list_store) \<lparr>ScriptID = ''a''\<rparr> example_scripts
     = ((Some DeleteScriptResponse, None), [\<lparr>ID = ''b''\<rparr>])"
proof -
  have f1: "fst (GetCronScripts (ds (New failing_store)) ()) = ([], Some ''store unavailable'')"
    and f2: "fst (UpsertCronScript (ds (New failing_store)) (Script \<lparr>Script = \<lparr>ID = ''a''\<rparr>\<rparr>) ())
       = Some ''store unavailable''"
    and f3: "fst (DeleteCronScript (ds (New failing_store)) (id (ScriptID \<lparr>ScriptID = ''a''\<rparr>)) ())
       = Some ''store unavailable''"
    by (simp_all add: New_def failing_store_def)
  have l1: "fst (GetCronScripts (ds (New list_store)) example_scripts) = (example_scripts, None)"
    and l2: "fst (UpsertCronScript (ds (New list_store)) (Script \<lparr>Script = \<lparr>ID = ''a''\<rparr>\<rparr>)
        example_scripts) = None"
    and l3: "DeleteCronScript (ds (New list_store)) (id (ScriptID \<lparr>ScriptID = ''a''\<rparr>))
        example_scripts = (None, [\<lparr>ID = ''b''\<rparr>])"
    by (simp_all add: New_def list_store_def example_scripts_def)
  have d: "distinct (map (script_key id id) example_scripts)"
    and keys: "script_key id id ` set example_scripts = {''a'', ''b''}"
      "script_key id id \<lparr>ID = ''a''\<rparr> = ''a''" "script_key id id \<lparr>ID = ''b''\<rparr> = ''b''"
    and mem: "\<lparr>ID = ''a''\<rparr> \<in> set example_scripts" "\<lparr>ID = ''b''\<rparr> \<in> set example_scripts"
    by (simp_all add: script_key_def example_scripts_def)
  note bad = Server_forwards_store_results
    [of "New failing_store" "()" "[]" "''store unavailable''" id id
        "New failing_store" "\<lparr>Script = \<lparr>ID = ''a''\<rparr>\<rparr>" "()" "''store unavailable''"
        "New failing_store" id "\<lparr>ScriptID = ''a''\<rparr>" "()" "''store unavailable''"]
  note good = Server_forwards_store_results
    [of "New list_store" example_scripts example_scripts _ id id
        "New list_store" "\<lparr>Script = \<lparr>ID = ''a''\<rparr>\<rparr>" example_scripts _
        "New list_store" id "\<lparr>ScriptID = ''a''\<rparr>" example_scripts]
  note g_get = good [THEN conjunct2, THEN conjunct1, rule_format, OF l1]
  then obtain m where
    m: "fst (GetScripts id id (New list_store) GetScriptsRequest example_scripts)
           = (Some \<lparr>resp_Scripts = m\<rparr>, None)"
      "dom m = script_key id id ` set example_scripts"
      and m3: "distinct (map (script_key id id) example_scripts) \<longrightarrow>
         (\<forall>sc \<in> set example_scripts. m (script_key id id sc) = Some sc)"
    by (elim exE conjE)
  from m3 d have all: "\<forall>sc \<in> set example_scripts. m (script_key id id sc) = Some sc"
    by (rule mp)
  from all mem(1) have "m (script_key id id \<lparr>ID = ''a''\<rparr>) = Some \<lparr>ID = ''a''\<rparr>" by (rule bspec)
  then have ma: "m ''a'' = Some \<lparr>ID = ''a''\<rparr>" by (simp only: keys)
  from all mem(2) have "m (script_key id id \<lparr>ID = ''b''\<rparr>) = Some \<lparr>ID = ''b''\<rparr>" by (rule bspec)
  then have mb: "m ''b'' = Some \<lparr>ID = ''b''\<rparr>" by (simp only: keys)
  have dm: "dom m = {''a'', ''b''}" using m(2) by (simp only: keys)
  have ex: "\<exists>m. fst (GetScripts id id (New list_store) GetScriptsRequest example_scripts)
           = (Some \<lparr>resp_Scripts = m\<rparr>, None) \<and>
        dom m = {''a'', ''b''} \<and> m ''a'' = Some \<lparr>ID = ''a''\<rparr> \<and> m ''b'' = Some \<lparr>ID = ''b''\<rparr>"
    using m(1) dm ma mb by (intro exI [of _ m] conjI)
  note b_get = bad [THEN conjunct1, rule_format, OF f1]
  note b_add = bad [THEN conjunct2, THEN conjunct2, THEN conjunct2, THEN conjunct1, rule_format, OF f2]
  note b_del = bad [THEN conjunct2, THEN conjunct2, THEN conjunct2, THEN conjunct2, THEN conjunct2,
      THEN conjunct2, THEN conjunct1, rule_format, OF f3]
  note g_add = good [THEN conjunct2, THEN conjunct2, THEN conjunct2, THEN conjunct2, THEN conjunct1,
      rule_format, OF l2]
  have l3a: "fst (DeleteCronScript (ds (New list_store)) (id (ScriptID \<lparr>ScriptID = ''a''\<rparr>))
        example_scripts) = None" by (simp only: l3 fst_conv)
  note g_del = good [THEN conjunct2, THEN conjunct2, THEN conjunct2, THEN conjunct2, THEN conjunct2,
      THEN conjunct2, THEN conjunct2, THEN conjunct1, rule_format, OF l3a]
  note g_del_st = good [THEN conjunct2, THEN conjunct2, THEN conjunct2, THEN conjunct2, THEN conjunct2,
      THEN conjunct2, THEN conjunct2, THEN conjunct2, THEN conjunct1]
  have del: "DeleteScript id (New list_store) \<lparr>ScriptID = ''a''\<rparr> example_scripts
     = ((Some DeleteScriptResponse, None), [\<lparr>ID = ''b''\<rparr>])"
    using g_del g_del_st by (simp only: prod_eq_iff l3 fst_conv snd_conv simp_thms)
  show ?thesis
    by (intro conjI f1 f2 f3 l1 l2 l3a d ex del b_get b_add b_del g_add)
qed

section \<open>Properties of the deployment configuration generator\<close>

lemma nff_Nil [simp]: "no_fatal_failure []"
  by (simp add: no_fatal_failure_def)

lemma nff_append [simp]: "no_fatal_failure (a @ b) \<longleftrightarrow> no_fatal_failure a \<and> no_fatal_failure b"
  by (auto simp: no_fatal_failure_def)

lemma nff_Cons [simp]: "no_fatal_failure (e # tr) \<longleftrightarrow> \<not> fatal_failure e \<and> no_fatal_failure tr"
  by (auto simp: no_fatal_failure_def)




lemma run_ok_Inr [simp]: "run_ok (Inr v, tr) \<longleftrightarrow> no_fatal_failure tr"
  by (simp add: run_ok_def)

lemma run_ok_Inl [simp]: "run_ok (Inl out, tr) \<longleftrightarrow> fatal_is_last out tr"
  by (simp add: run_ok_def)


















subsection \<open>Both environment flags\<close>

text \<open>
  C8. When both the prod flag and the staging flag are set, the run ends with
  \<open>log.Fatal\<close> inside \<open>parseArgs\<close>, having done nothing: the list of events is empty,
  so no directory or file was created and no subprocess was started.
\<close>

theorem both_flags_fatal_before_any_effect:
  "GetBool w ''prod'' \<and> GetBool w ''staging'' \<longrightarrow>
     (\<exists>message. parseArgs w [] = (Inl (Fatal message), []) \<and> main w = Some (Fatal message, [])) \<and>
     (\<forall>out tr. main w = Some (out, tr) \<longrightarrow> (\<forall>ev \<in> set tr. \<not> creates_or_spawns ev))"
  by (auto simp: main_def parseArgs_def)

lemma both_flags_world_flags:
  "GetBool both_flags_world ''prod''" "GetBool both_flags_world ''staging''"
  by (simp_all add: both_flags_world_def)

theorem both_flags_fatal_before_any_effect_witness:
  "GetBool both_flags_world ''prod'' \<and> GetBool both_flags_world ''staging'' \<and>
   main both_flags_world =
     Some (Fatal ''Flags --prod and --staging can only be used exclusively. Please remove one to specify the environment'', [])"
proof -
  have bd: "GetString both_flags_world ''build_dir'' = ''/ws/build''"
    by (simp add: both_flags_world_def dev_world_def)
  have pa: "parseArgs both_flags_world [] =
     (Inl (Fatal ''Flags --prod and --staging can only be used exclusively. Please remove one to specify the environment''), [])"
    by (simp add: parseArgs_def bd both_flags_world_flags)
  from both_flags_fatal_before_any_effect [of both_flags_world] both_flags_world_flags pa
  show ?thesis by auto
qed

subsection \<open>Which failures end the run\<close>





end
